theory Spec2Isabelle
  imports Main "HOL-Library.Log_Nat" "HOL-Library.Option_ord"
begin

section \<open>Python values, exceptions and binary64 arithmetic\<close>

text \<open>
  The agent is one Python module, \<^verbatim>\<open>src/agent/agent.py\<close>. Every \<^verbatim>\<open>raise\<close> that the
  module can meet is a value of \<open>exn\<close>; a computation that may raise has a result of
  type \<open>exn + 'a\<close>, with \<open>Inl\<close> for the exception.
  \<open>RpcError\<close> stands for any exception coming out of the blockchain client
  (transport failure, contract revert, time-out of the receipt wait, signing error).
\<close>

datatype exn =
    TypeError
  | ValueError
  | OverflowError
  | IndexError
  | UnboundLocalError
  | RpcError string

text \<open>Sequencing: the first exception raised ends the computation.\<close>

definition bind_exn :: "exn + 'a \<Rightarrow> ('a \<Rightarrow> exn + 'b) \<Rightarrow> exn + 'b" where
  "bind_exn m f = (case m of Inl e \<Rightarrow> Inl e | Inr x \<Rightarrow> f x)"

text \<open>
  The numbers the module computes with are Python \<^verbatim>\<open>int\<close>s, \<^verbatim>\<open>float\<close>s (IEEE binary64)
  and \<^verbatim>\<open>decimal.Decimal\<close>s. A finite float is modelled by the rational it denotes;
  \<open>PNegInf\<close> is \<^verbatim>\<open>-float('inf')\<close>, the initial value of \<^verbatim>\<open>best_net_profit\<close>.
\<close>

datatype pynum = PInt int | PFloat rat | PNegInf | PDecimal rat

text \<open>
  Python orders ints, floats and Decimals by their exact numeric value, and
  \<^verbatim>\<open>-inf\<close> lies below every finite number. \<open>num_key\<close> maps a number into
  \<open>rat option\<close>, where \<open>None\<close> is the least element.
\<close>

fun num_key :: "pynum \<Rightarrow> rat option" where
  "num_key (PInt i) = Some (of_int i)"
| "num_key (PFloat x) = Some x"
| "num_key PNegInf = None"
| "num_key (PDecimal d) = Some d"

definition py_gt :: "pynum \<Rightarrow> pynum \<Rightarrow> bool" where
  "py_gt a b = (num_key b < num_key a)"

subsection \<open>Rounding to binary64\<close>

definition pow2 :: "int \<Rightarrow> rat" where
  "pow2 k = (if 0 \<le> k then 2 ^ nat k else 1 / 2 ^ nat (- k))"

definition round_half_even :: "rat \<Rightarrow> int" where
  "round_half_even q =
     (let f = \<lfloor>q\<rfloor>; r = q - of_int f
      in if r < 1 / 2 then f else if 1 / 2 < r then f + 1 else if even f then f else f + 1)"

text \<open>\<open>ilog2 a\<close> is the integer \<open>k\<close> with \<open>2^k \<le> a < 2^(k+1)\<close>, for \<open>a > 0\<close>: the
  bit lengths of numerator and denominator fix it up to one.\<close>

definition ilog2 :: "rat \<Rightarrow> int" where
  "ilog2 a =
     (let (p, q) = quotient_of a;
          k = int (floorlog 2 (nat p)) - int (floorlog 2 (nat q))
      in if pow2 k \<le> a then k else k - 1)"

text \<open>
  The exponent of the binary64 number nearest to \<open>x\<close> (not below the smallest normal
  exponent, so that subnormal results are rounded to multiples of \<open>2^-1074\<close>) and its
  53-bit significand, rounded to nearest, ties to even.
\<close>

definition f64_exp :: "rat \<Rightarrow> int" where
  "f64_exp x = max (ilog2 \<bar>x\<bar>) (- 1022)"

definition f64_mant :: "rat \<Rightarrow> int" where
  "f64_mant x = round_half_even (\<bar>x\<bar> / pow2 (f64_exp x - 52))"

text \<open>
  \<open>f64_round x\<close> is the float that a correctly rounded operation with exact result \<open>x\<close>
  produces. A result of magnitude \<open>2^1024\<close> or more is an overflow. Python raises
  \<^verbatim>\<open>OverflowError\<close> when an int is too large to convert; a float product or sum that
  overflows is \<^verbatim>\<open>inf\<close> instead, but every such value of this module is next passed to
  \<^verbatim>\<open>int()\<close> inside the same \<^verbatim>\<open>try\<close>, which raises on \<^verbatim>\<open>inf\<close> and \<^verbatim>\<open>nan\<close>. The model
  therefore raises at the overflow itself.
\<close>

definition f64_round :: "rat \<Rightarrow> exn + rat" where
  "f64_round x =
     (if x = 0 then Inr 0
      else if 1023 < f64_exp x \<or> (f64_exp x = 1023 \<and> f64_mant x = 2 ^ 53)
      then Inl OverflowError
      else Inr (sgn x * (of_int (f64_mant x) * pow2 (f64_exp x - 52))))"

text \<open>The float literals of the module: \<^verbatim>\<open>0.003\<close>, \<^verbatim>\<open>GAS_BUFFER = 1.2\<close>, \<^verbatim>\<open>0.01\<close> and
  \<^verbatim>\<open>1e18\<close>, each the binary64 number nearest to the decimal literal.\<close>

definition FEE_RATE :: rat where
  "FEE_RATE = 3458764513820541 / 1152921504606846976"

definition GAS_BUFFER :: rat where
  "GAS_BUFFER = 5404319552844595 / 4503599627370496"

definition FALLBACK_GAS_COST :: rat where
  "FALLBACK_GAS_COST = 5764607523034235 / 576460752303423488"

definition ONE_E18 :: rat where
  "ONE_E18 = 1000000000000000000"

text \<open>Python's mixed arithmetic converts the int operand to float first.\<close>

definition float_of_int :: "int \<Rightarrow> exn + rat" where
  "float_of_int i = f64_round (of_int i)"

definition float_mul :: "rat \<Rightarrow> rat \<Rightarrow> exn + rat" where
  "float_mul a b = f64_round (a * b)"

definition float_add :: "rat \<Rightarrow> rat \<Rightarrow> exn + rat" where
  "float_add a b = f64_round (a + b)"

definition float_sub :: "rat \<Rightarrow> rat \<Rightarrow> exn + rat" where
  "float_sub a b = f64_round (a - b)"

definition float_div :: "rat \<Rightarrow> rat \<Rightarrow> exn + rat" where
  "float_div a b = f64_round (a / b)"

definition int_mul_float :: "int \<Rightarrow> rat \<Rightarrow> exn + rat" where
  "int_mul_float i b = bind_exn (float_of_int i) (\<lambda>a. float_mul a b)"

definition int_div_float :: "int \<Rightarrow> rat \<Rightarrow> exn + rat" where
  "int_div_float i b = bind_exn (float_of_int i) (\<lambda>a. float_div a b)"

text \<open>\<^verbatim>\<open>a / b\<close> on two ints is the correctly rounded quotient (the divisor here is the
  constant \<^verbatim>\<open>10**18\<close>).\<close>

definition int_truediv :: "int \<Rightarrow> int \<Rightarrow> exn + rat" where
  "int_truediv a b = f64_round (of_int a / of_int b)"

text \<open>\<^verbatim>\<open>int(x)\<close> truncates towards zero.\<close>

definition int_of_float :: "rat \<Rightarrow> int" where
  "int_of_float x = (if 0 \<le> x then \<lfloor>x\<rfloor> else \<lceil>x\<rceil>)"

text \<open>
  \<^verbatim>\<open>gross - total_fees_weth\<close>: the right operand is always a float. An int operand is
  converted; a \<^verbatim>\<open>Decimal\<close> operand raises \<^verbatim>\<open>TypeError\<close> (unsupported operand types
  \<^verbatim>\<open>decimal.Decimal\<close> and \<^verbatim>\<open>float\<close>).
\<close>

fun py_sub_float :: "pynum \<Rightarrow> rat \<Rightarrow> exn + rat" where
  "py_sub_float (PInt i) f = bind_exn (float_of_int i) (\<lambda>a. float_sub a f)"
| "py_sub_float (PFloat a) f = float_sub a f"
| "py_sub_float PNegInf f = Inl OverflowError"
| "py_sub_float (PDecimal d) f = Inl TypeError"

subsection \<open>The client library's unit conversion\<close>

text \<open>
  \<^verbatim>\<open>w3.from_wei(number, unit)\<close> is \<^verbatim>\<open>eth_utils.from_wei\<close>: it returns the int \<^verbatim>\<open>0\<close> for
  \<^verbatim>\<open>0\<close>, raises \<^verbatim>\<open>ValueError\<close> outside \<^verbatim>\<open>1 .. 2**256 - 1\<close>, and otherwise returns the
  \<^verbatim>\<open>Decimal\<close> \<^verbatim>\<open>number / unit_value\<close>, computed exactly (precision 999).
\<close>

definition MAX_WEI :: int where
  "MAX_WEI = 2 ^ 256 - 1"

definition from_wei :: "int \<Rightarrow> int \<Rightarrow> exn + pynum" where
  "from_wei number unit_value =
     (if number = 0 then Inr (PInt 0)
      else if number < 1 \<or> MAX_WEI < number then Inl ValueError
      else Inr (PDecimal (of_int number / of_int unit_value)))"

definition ETHER :: int where
  "ETHER = 1000000000000000000"

definition GWEI :: int where
  "GWEI = 1000000000"

section \<open>Configuration and module globals\<close>

text \<open>A pair configuration is one dict of the list \<^verbatim>\<open>PAIRS\<close>; addresses are kept as the
  hexadecimal strings of the source.\<close>

record pair =
  name :: string
  token :: string
  token_name :: string
  uniswap_pair :: string
  sushiswap_pair :: string
  path1 :: "string list"
  path2 :: "string list"
  decimals :: nat

text \<open>
  The module-level names that the execution cycle reads. At import time
  \<^verbatim>\<open>MIN_PROFIT_THRESHOLD\<close>, \<^verbatim>\<open>MAX_GAS_PRICE\<close> and \<^verbatim>\<open>BASE_PRIORITY_FEE\<close> are \<^verbatim>\<open>None\<close>
  and the two lists are empty.
\<close>

record globals =
  PAIRS :: "pair list"
  LOAN_AMOUNTS :: "int list"
  MIN_PROFIT_THRESHOLD :: "int option"
  MAX_GAS_PRICE :: "int option"
  BASE_PRIORITY_FEE :: "int option"

definition DEADLINE_DELTA :: int where
  "DEADLINE_DELTA = 300"

definition POLL_INTERVAL :: nat where
  "POLL_INTERVAL = 1"

definition INITIAL_BACKOFF :: nat where
  "INITIAL_BACKOFF = 10"

definition module_globals :: globals where
  "module_globals =
     \<lparr>PAIRS = [], LOAN_AMOUNTS = [], MIN_PROFIT_THRESHOLD = None,
      MAX_GAS_PRICE = None, BASE_PRIORITY_FEE = None\<rparr>"

definition WETH :: string where
  "WETH = ''0xC02aaA39b223FE8D0A0e5C4F27eAD9083C756Cc2''"

definition USDT :: string where
  "USDT = ''0xdAC17F958D2ee523a2206206994597C13D831ec7''"

definition USDC :: string where
  "USDC = ''0xA0b86991c6218b36c1d19D4a2e9Eb0cE3606eB48''"

definition pair_usdt :: pair where
  "pair_usdt =
     \<lparr>name = ''WETH/USDT'', token = USDT, token_name = ''USDT'',
      uniswap_pair = ''0x0d4a11d5EEaaC28EC3F61d100daF4d40471f1852'',
      sushiswap_pair = ''0x06da0fd433C1A5d7a4faa01111c044910A184553'',
      path1 = [WETH, USDT], path2 = [USDT, WETH], decimals = 6\<rparr>"

definition pair_usdc :: pair where
  "pair_usdc =
     \<lparr>name = ''USDC/WETH'', token = USDC, token_name = ''USDC'',
      uniswap_pair = ''0xB4e16d0168e52d35CaCD2c6185b44281Ec28C9Dc'',
      sushiswap_pair = ''0x397FF1542f962076d0BFE58eA045FfA2d347ACa0'',
      path1 = [WETH, USDC], path2 = [USDC, WETH], decimals = 6\<rparr>"

text \<open>
  \<^verbatim>\<open>main\<close> declares \<^verbatim>\<open>global w3, contract, WETH, PAIRS, LOAN_AMOUNTS,
  MIN_PROFIT_THRESHOLD\<close> and then assigns the configuration. \<^verbatim>\<open>MAX_GAS_PRICE\<close> and
  \<^verbatim>\<open>BASE_PRIORITY_FEE\<close> are not in that declaration, so the assignments to them
  inside \<^verbatim>\<open>main\<close> bind locals of \<^verbatim>\<open>main\<close> and the module-level names keep \<^verbatim>\<open>None\<close>.
  \<^verbatim>\<open>w3.to_wei(1, 'ether')\<close> is \<open>10^18\<close> and \<^verbatim>\<open>w3.to_wei(0.000001, 'ether')\<close> is \<open>10^12\<close>.
\<close>

definition main_globals :: globals where
  "main_globals =
     module_globals
       \<lparr>PAIRS := [pair_usdt, pair_usdc],
        LOAN_AMOUNTS := [1000000000000000000, 10000000000000000000],
        MIN_PROFIT_THRESHOLD := Some 1000000000000\<rparr>"

section \<open>Notifications and transactions\<close>

text \<open>
  What the process does to the outside is recorded as a trace of events:
  the messages handed to \<^verbatim>\<open>send_telegram_alert\<close> (which catches every exception of
  its own, so the attempt never raises), the sleeps, and the three steps of a
  submission.
\<close>

record tx =
  tx_pair :: pair
  tx_amount :: int
  tx_deadline :: int
  maxFeePerGas :: int
  maxPriorityFeePerGas :: int
  tx_nonce :: int
  chainId :: int
  gas :: "int option"

datatype event =
    Sleep nat
  | AlertStarted
  | AlertProbe string int pynum
  | AlertSimulationFailed string
  | TxBuilt tx
  | TxSigned tx
  | TxBroadcast tx nat
  | AlertTxSent nat
  | AlertSuccess nat
  | AlertTxFailed string
  | AlertExecutionFailed exn
  | AlertBlockError exn

section \<open>The probe: \<^verbatim>\<open>simulate_arbitrage\<close>\<close>

text \<open>
  The answers of the network to the remote calls of one probe, in the order in which
  \<^verbatim>\<open>simulate_arbitrage\<close> makes them: the two \<^verbatim>\<open>getAmountsOut\<close> quotes, the contract's
  \<^verbatim>\<open>simulateArbitrage\<close> call, \<^verbatim>\<open>estimate_gas\<close> and \<^verbatim>\<open>gas_price\<close>; and the string that
  \<^verbatim>\<open>get_revert_reason_from_simulation\<close> (which catches everything) returns.
\<close>

record probe_net =
  quote_uniswap :: "exn + nat list"
  quote_sushiswap :: "exn + nat list"
  simulate_call :: "exn + bool \<times> int"
  scan_estimate_gas :: "exn + nat"
  scan_gas_price :: "exn + nat"
  revert_reason :: string

text \<open>\<^verbatim>\<open>xs[-1]\<close> raises \<^verbatim>\<open>IndexError\<close> on an empty list.\<close>

definition py_last :: "'a list \<Rightarrow> exn + 'a" where
  "py_last xs = (if xs = [] then Inl IndexError else Inr (last xs))"

text \<open>
  Lines 155 to 165. \<^verbatim>\<open>token_out\<close> is in the token's smallest unit and \<^verbatim>\<open>weth_out\<close> in
  wei; the two fees are added as they are, truncated to an int and divided by
  \<^verbatim>\<open>1e18\<close>. The result is \<^verbatim>\<open>(total_fees_wei, total_fees_weth)\<close>.
\<close>

definition estimate_fees :: "nat \<Rightarrow> nat \<Rightarrow> exn + int \<times> rat" where
  "estimate_fees token_out weth_out =
     bind_exn (int_mul_float (int token_out) FEE_RATE) (\<lambda>fee_token_wei.
     bind_exn (int_mul_float (int weth_out) FEE_RATE) (\<lambda>fee_weth_wei.
     bind_exn (float_add fee_token_wei fee_weth_wei) (\<lambda>s.
     bind_exn (int_div_float (int_of_float s) ONE_E18) (\<lambda>total_fees_weth.
     Inr (int_of_float s, total_fees_weth)))))"

text \<open>
  Lines 189 to 196, the inner \<^verbatim>\<open>try\<close>. The locals \<^verbatim>\<open>gas_estimate\<close>, \<^verbatim>\<open>gas_price\<close> and
  \<^verbatim>\<open>gas_cost_wei\<close> are bound only as far as the \<^verbatim>\<open>try\<close> body got; \<open>None\<close> is an
  unbound local. The warning of the \<^verbatim>\<open>except\<close> branch formats
  \<^verbatim>\<open>w3.from_wei(amount_in, 'ether')\<close>, which may raise out of the inner handler.
\<close>

record gas_locals =
  gas_estimate :: "nat option"
  gas_price :: "nat option"
  gas_cost_wei :: "int option"
  gas_cost_weth :: rat

definition gas_fallback :: "int \<Rightarrow> nat option \<Rightarrow> nat option \<Rightarrow> int option \<Rightarrow> exn + gas_locals" where
  "gas_fallback amount_in ge gp gcw =
     bind_exn (from_wei amount_in ETHER) (\<lambda>_.
     Inr \<lparr>gas_estimate = ge, gas_price = gp, gas_cost_wei = gcw,
          gas_cost_weth = FALLBACK_GAS_COST\<rparr>)"

text \<open>Line 192: \<^verbatim>\<open>int(gas_estimate * GAS_BUFFER * gas_price)\<close>.\<close>

definition buffered_gas_cost :: "nat \<Rightarrow> nat \<Rightarrow> exn + int" where
  "buffered_gas_cost ge gp =
     bind_exn (int_mul_float (int ge) GAS_BUFFER) (\<lambda>b.
     bind_exn (float_of_int (int gp)) (\<lambda>p.
     bind_exn (float_mul b p) (\<lambda>c. Inr (int_of_float c))))"

definition estimate_gas_cost :: "probe_net \<Rightarrow> int \<Rightarrow> exn + gas_locals" where
  "estimate_gas_cost net amount_in =
     (case scan_estimate_gas net of
        Inl e \<Rightarrow> gas_fallback amount_in None None None
      | Inr ge \<Rightarrow>
         (case scan_gas_price net of
            Inl e \<Rightarrow> gas_fallback amount_in (Some ge) None None
          | Inr gp \<Rightarrow>
             (case buffered_gas_cost ge gp of
                Inl e \<Rightarrow> gas_fallback amount_in (Some ge) (Some gp) None
              | Inr gcw \<Rightarrow>
                 (case int_truediv gcw ETHER of
                    Inl e \<Rightarrow> gas_fallback amount_in (Some ge) (Some gp) (Some gcw)
                  | Inr w \<Rightarrow>
                      Inr \<lparr>gas_estimate = Some ge, gas_price = Some gp,
                           gas_cost_wei = Some gcw, gas_cost_weth = w\<rparr>))))"

text \<open>The value a probe returns:
  \<^verbatim>\<open>(profitable, estimated_profit, net_profit_weth, gas_cost_weth)\<close>.\<close>

type_synonym sim_result = "bool \<times> int \<times> pynum \<times> pynum"

definition failure_tuple :: sim_result where
  "failure_tuple = (False, 0, PInt 0, PInt 0)"

text \<open>
  The body of the outer \<^verbatim>\<open>try\<close> (lines 136 to 218). After the net profit, the log
  line formats \<^verbatim>\<open>w3.from_wei(amount_in, 'ether')\<close> and the \<^verbatim>\<open>print\<close> calls read
  \<^verbatim>\<open>gas_estimate\<close>, \<^verbatim>\<open>gas_price\<close> and \<^verbatim>\<open>gas_cost_wei\<close>, raising \<^verbatim>\<open>UnboundLocalError\<close> on
  one that the inner \<^verbatim>\<open>try\<close> left unbound.
\<close>

definition net_profit :: "int \<Rightarrow> rat \<Rightarrow> rat \<Rightarrow> exn + rat" where
  "net_profit estimated_profit total_fees_weth gas_weth =
     bind_exn (from_wei estimated_profit ETHER) (\<lambda>gross_profit_weth.
     bind_exn (py_sub_float gross_profit_weth total_fees_weth) (\<lambda>d.
     float_sub d gas_weth))"

definition simulate_body :: "probe_net \<Rightarrow> pair \<Rightarrow> int \<Rightarrow> exn + sim_result" where
  "simulate_body net p amount_in =
     bind_exn (quote_uniswap net) (\<lambda>out1.
     bind_exn (py_last out1) (\<lambda>token_out.
     bind_exn (quote_sushiswap net) (\<lambda>out2.
     bind_exn (py_last out2) (\<lambda>weth_out.
     bind_exn (estimate_fees token_out weth_out) (\<lambda>(total_fees_wei, total_fees_weth).
     bind_exn (simulate_call net) (\<lambda>(profitable, estimated_profit).
     bind_exn (estimate_gas_cost net amount_in) (\<lambda>g.
     bind_exn (net_profit estimated_profit total_fees_weth (gas_cost_weth g)) (\<lambda>net_profit_weth.
     bind_exn (from_wei amount_in ETHER) (\<lambda>_.
     if gas_estimate g = None \<or> gas_price g = None \<or> gas_cost_wei g = None
     then Inl UnboundLocalError
     else Inr (profitable, estimated_profit, PFloat net_profit_weth,
               PFloat (gas_cost_weth g)))))))))))"

text \<open>
  \<^verbatim>\<open>simulate_arbitrage\<close>: any exception of the body goes to the handler of lines 219
  to 224, which logs (formatting \<^verbatim>\<open>w3.from_wei(amount_in, 'ether')\<close> once more, outside
  any \<^verbatim>\<open>try\<close>), sends the alert and returns \<^verbatim>\<open>(False, 0, 0, 0)\<close>. The second component
  of the result is the notifications sent. (The backslashes inside the replacement
  field of line 223 need Python 3.12 or later; the model is of the module running
  there.)
\<close>

definition simulate_arbitrage :: "probe_net \<Rightarrow> pair \<Rightarrow> int \<Rightarrow> exn + sim_result \<times> event list" where
  "simulate_arbitrage net p amount_in =
     (case simulate_body net p amount_in of
        Inr r \<Rightarrow> Inr (r, [])
      | Inl e \<Rightarrow>
          (case from_wei amount_in ETHER of
             Inl e' \<Rightarrow> Inl e'
           | Inr _ \<Rightarrow> Inr (failure_tuple, [AlertSimulationFailed (revert_reason net)])))"

section \<open>The execution cycle: \<^verbatim>\<open>execute_arbitrage\<close>\<close>

text \<open>
  The state that outlives a cycle is the module global \<^verbatim>\<open>last_nonce\<close> (\<open>None\<close> until
  the first acquisition) and, for the model, the trace of what the process has done.
\<close>

record state =
  last_nonce :: "int option"
  trace :: "event list"

definition emit :: "event list \<Rightarrow> state \<Rightarrow> state" where
  "emit evs st = st\<lparr>trace := trace st @ evs\<rparr>"

definition initial_state :: state where
  "initial_state = \<lparr>last_nonce = None, trace = []\<rparr>"

subsection \<open>Selection (lines 228 to 254)\<close>

record cycle_locals =
  best_pair :: "pair option"
  best_amount :: "int option"
  best_profit :: int
  best_net_profit :: pynum
  best_profitable :: bool
  best_gas_cost :: pynum

definition initial_locals :: cycle_locals where
  "initial_locals =
     \<lparr>best_pair = None, best_amount = None, best_profit = 0, best_net_profit = PNegInf,
      best_profitable = False, best_gas_cost = PInt 0\<rparr>"

text \<open>
  The \<^verbatim>\<open>if\<close> of lines 244 to 254. \<^verbatim>\<open>and\<close> evaluates from the left and stops at the
  first false operand, so the comparison with \<^verbatim>\<open>MIN_PROFIT_THRESHOLD\<close> happens only for
  a probe flagged profitable; it raises \<^verbatim>\<open>TypeError\<close> when the threshold is \<^verbatim>\<open>None\<close>.
\<close>

definition select_step :: "int option \<Rightarrow> cycle_locals \<Rightarrow> pair \<Rightarrow> int \<Rightarrow> sim_result \<Rightarrow> exn + cycle_locals" where
  "select_step threshold b p amount_in r =
     (case r of (profitable, estimated_profit, net_profit_weth, gas_weth) \<Rightarrow>
        if \<not> profitable then Inr b
        else (case threshold of
                None \<Rightarrow> Inl TypeError
              | Some t \<Rightarrow>
                  if t \<le> estimated_profit \<and> py_gt net_profit_weth (best_net_profit b)
                     \<and> py_gt net_profit_weth (PInt 0)
                  then Inr \<lparr>best_pair = Some p, best_amount = Some amount_in,
                            best_profit = estimated_profit, best_net_profit = net_profit_weth,
                            best_profitable = True, best_gas_cost = gas_weth\<rparr>
                  else Inr b))"

text \<open>The selection over the results of the probes, in the order of the scan.\<close>

fun select_all :: "int option \<Rightarrow> (pair \<times> int \<times> sim_result) list \<Rightarrow> cycle_locals \<Rightarrow> exn + cycle_locals" where
  "select_all threshold [] b = Inr b"
| "select_all threshold ((p, amount_in, r) # rs) b =
     bind_exn (select_step threshold b p amount_in r) (select_all threshold rs)"

subsection \<open>The scan (lines 235 to 254)\<close>

text \<open>
  One pass of the inner loop body: the throttling sleep, the probe, the notification
  (whose text formats \<^verbatim>\<open>w3.from_wei(amount_in, 'ether')\<close>) and the selection step.
\<close>

definition probe_step :: "globals \<Rightarrow> probe_net \<Rightarrow> pair \<Rightarrow> int \<Rightarrow> cycle_locals \<Rightarrow> state \<Rightarrow> (exn + cycle_locals) \<times> state" where
  "probe_step gl net p amount_in b st =
     (let st1 = emit [Sleep 1] st in
      case simulate_arbitrage net p amount_in of
        Inl e \<Rightarrow> (Inl e, st1)
      | Inr (r, evs) \<Rightarrow>
         (case from_wei amount_in ETHER of
            Inl e \<Rightarrow> (Inl e, emit evs st1)
          | Inr _ \<Rightarrow>
              (select_step (MIN_PROFIT_THRESHOLD gl) b p amount_in r,
               emit (evs @ [AlertProbe (name p) amount_in (fst (snd (snd r)))]) st1)))"

text \<open>The two loops. The probes of a cycle are numbered in the order of the scan, and
  the \<open>k\<close>-th probe gets the answers \<open>nets k\<close>.\<close>

fun scan_amounts :: "globals \<Rightarrow> (nat \<Rightarrow> probe_net) \<Rightarrow> pair \<Rightarrow> int list \<Rightarrow> cycle_locals \<Rightarrow> nat \<Rightarrow> state \<Rightarrow> (exn + cycle_locals \<times> nat) \<times> state" where
  "scan_amounts gl nets p [] b k st = (Inr (b, k), st)"
| "scan_amounts gl nets p (amount_in # amounts) b k st =
     (case probe_step gl (nets k) p amount_in b st of
        (Inl e, st') \<Rightarrow> (Inl e, st')
      | (Inr b', st') \<Rightarrow> scan_amounts gl nets p amounts b' (Suc k) st')"

fun scan_pairs :: "globals \<Rightarrow> (nat \<Rightarrow> probe_net) \<Rightarrow> pair list \<Rightarrow> cycle_locals \<Rightarrow> nat \<Rightarrow> state \<Rightarrow> (exn + cycle_locals \<times> nat) \<times> state" where
  "scan_pairs gl nets [] b k st = (Inr (b, k), st)"
| "scan_pairs gl nets (p # ps) b k st =
     (case scan_amounts gl nets p (LOAN_AMOUNTS gl) b k st of
        (Inl e, st') \<Rightarrow> (Inl e, st')
      | (Inr (b', k'), st') \<Rightarrow> scan_pairs gl nets ps b' k' st')"

subsection \<open>The gas check (lines 260 to 266)\<close>

text \<open>The answers of the network to the remote calls that follow the scan.\<close>

record cycle_net =
  probe_nets :: "nat \<Rightarrow> probe_net"
  latest_base_fee :: "exn + nat"
  max_priority_fee :: "exn + nat"
  pending_count :: "exn + nat"
  clock :: int
  chain_id :: "exn + nat"
  build_transaction :: "exn + unit"
  estimate_gas :: "exn + nat"
  sign_transaction :: "exn + unit"
  send_raw_transaction :: "exn + nat"
  receipt_status :: "exn + int"
  tx_revert_reason :: string
  resync_count :: "exn + nat"

datatype guard_result = Rejected | Accepted int int

text \<open>
  \<^verbatim>\<open>min(BASE_PRIORITY_FEE, await w3.eth.max_priority_fee)\<close> first awaits the suggested
  fee and then compares, which raises \<^verbatim>\<open>TypeError\<close> on \<^verbatim>\<open>None\<close>; so does
  \<^verbatim>\<open>max_fee > MAX_GAS_PRICE\<close>. The warning of the rejecting branch formats
  \<^verbatim>\<open>w3.from_wei(max_fee, 'gwei')\<close>. \<open>Accepted max_fee priority_fee\<close> is the fall-through
  to the submission.
\<close>

definition gas_policy_guard :: "globals \<Rightarrow> cycle_net \<Rightarrow> exn + guard_result" where
  "gas_policy_guard gl net =
     bind_exn (latest_base_fee net) (\<lambda>base_fee.
     bind_exn (max_priority_fee net) (\<lambda>suggested.
     bind_exn (case BASE_PRIORITY_FEE gl of None \<Rightarrow> Inl TypeError
               | Some cap \<Rightarrow> Inr (min cap (int suggested))) (\<lambda>priority_fee.
     let max_fee = int base_fee + priority_fee in
     bind_exn (case MAX_GAS_PRICE gl of None \<Rightarrow> Inl TypeError
               | Some cap \<Rightarrow> Inr (cap < max_fee)) (\<lambda>too_high.
     if too_high then bind_exn (from_wei max_fee GWEI) (\<lambda>_. Inr Rejected)
     else Inr (Accepted max_fee priority_fee)))))"

subsection \<open>The submission (lines 268 to 314)\<close>

text \<open>Lines 270 to 273: the first acquisition fetches the pending transaction count,
  every later one adds one to the held value.\<close>

definition acquire_nonce :: "cycle_net \<Rightarrow> state \<Rightarrow> (exn + int) \<times> state" where
  "acquire_nonce net st =
     (case last_nonce st of
        None \<Rightarrow>
          (case pending_count net of
             Inl e \<Rightarrow> (Inl e, st)
           | Inr c \<Rightarrow> (Inr (int c), st\<lparr>last_nonce := Some (int c)\<rparr>))
      | Some n \<Rightarrow> (Inr (n + 1), st\<lparr>last_nonce := Some (n + 1)\<rparr>))"

text \<open>
  Lines 275 to 292: the call object with the deadline, the transaction dict with the
  fee parameters and the nonce, and the buffered gas limit. Subscripting a
  \<^verbatim>\<open>best_pair\<close> that is \<^verbatim>\<open>None\<close> raises \<^verbatim>\<open>TypeError\<close>.
\<close>

definition build_tx :: "cycle_net \<Rightarrow> cycle_locals \<Rightarrow> int \<Rightarrow> int \<Rightarrow> int \<Rightarrow> exn + tx" where
  "build_tx net b max_fee priority_fee n =
     bind_exn (case best_pair b of None \<Rightarrow> Inl TypeError | Some p \<Rightarrow> Inr p) (\<lambda>p.
     bind_exn (case best_amount b of None \<Rightarrow> Inl TypeError | Some a \<Rightarrow> Inr a) (\<lambda>a.
     bind_exn (chain_id net) (\<lambda>c.
     bind_exn (build_transaction net) (\<lambda>_.
     Inr \<lparr>tx_pair = p, tx_amount = a, tx_deadline = clock net + DEADLINE_DELTA,
          maxFeePerGas = max_fee, maxPriorityFeePerGas = priority_fee, tx_nonce = n,
          chainId = int c, gas = None\<rparr>))))"

definition gas_limit :: "cycle_net \<Rightarrow> exn + int" where
  "gas_limit net =
     bind_exn (estimate_gas net) (\<lambda>ge.
     bind_exn (int_mul_float (int ge) GAS_BUFFER) (\<lambda>g. Inr (int_of_float g)))"

text \<open>Lines 299 to 308: the receipt and the two branches on its status.\<close>

definition await_receipt :: "cycle_net \<Rightarrow> nat \<Rightarrow> state \<Rightarrow> (exn + bool) \<times> state" where
  "await_receipt net h st =
     (case receipt_status net of
        Inl e \<Rightarrow> (Inl e, st)
      | Inr status \<Rightarrow>
          if status = 1 then (Inr True, emit [AlertSuccess h] st)
          else (case last_nonce st of
                  None \<Rightarrow> (Inl TypeError, emit [AlertTxFailed (tx_revert_reason net)] st)
                | Some n \<Rightarrow>
                    (Inr False,
                     (emit [AlertTxFailed (tx_revert_reason net)] st)\<lparr>last_nonce := Some (n - 1)\<rparr>)))"

text \<open>Lines 294 to 297: sign, broadcast and tell.\<close>

definition sign_and_send :: "cycle_net \<Rightarrow> tx \<Rightarrow> state \<Rightarrow> (exn + nat) \<times> state" where
  "sign_and_send net t st =
     (case sign_transaction net of
        Inl e \<Rightarrow> (Inl e, st)
      | Inr _ \<Rightarrow>
         (case send_raw_transaction net of
            Inl e \<Rightarrow> (Inl e, emit [TxSigned t] st)
          | Inr h \<Rightarrow> (Inr h, emit [TxSigned t, TxBroadcast t h, AlertTxSent h] st)))"

text \<open>The body of the \<^verbatim>\<open>try\<close>, lines 269 to 308.\<close>

definition submit_body :: "cycle_net \<Rightarrow> cycle_locals \<Rightarrow> int \<Rightarrow> int \<Rightarrow> state \<Rightarrow> (exn + bool) \<times> state" where
  "submit_body net b max_fee priority_fee st =
     (case acquire_nonce net st of
        (Inl e, st1) \<Rightarrow> (Inl e, st1)
      | (Inr n, st1) \<Rightarrow>
         (case build_tx net b max_fee priority_fee n of
            Inl e \<Rightarrow> (Inl e, st1)
          | Inr t \<Rightarrow>
             (case gas_limit net of
                Inl e \<Rightarrow> (Inl e, emit [TxBuilt t] st1)
              | Inr g \<Rightarrow>
                 (case sign_and_send net (t\<lparr>gas := Some g\<rparr>) (emit [TxBuilt t] st1) of
                    (Inl e, st2) \<Rightarrow> (Inl e, st2)
                  | (Inr h, st2) \<Rightarrow> await_receipt net h st2))))"

text \<open>
  The \<^verbatim>\<open>try\<close> with its handler, lines 309 to 314: the error is reported and
  \<^verbatim>\<open>last_nonce\<close> is set to a newly fetched pending count. The fetch is itself a remote
  call outside any \<^verbatim>\<open>try\<close>.
\<close>

definition submit :: "cycle_net \<Rightarrow> cycle_locals \<Rightarrow> int \<Rightarrow> int \<Rightarrow> state \<Rightarrow> (exn + bool) \<times> state" where
  "submit net b max_fee priority_fee st =
     (case submit_body net b max_fee priority_fee st of
        (Inr r, st') \<Rightarrow> (Inr r, st')
      | (Inl e, st') \<Rightarrow>
         (case resync_count net of
            Inl e' \<Rightarrow> (Inl e', emit [AlertExecutionFailed e] st')
          | Inr c \<Rightarrow> (Inr False, (emit [AlertExecutionFailed e] st')\<lparr>last_nonce := Some (int c)\<rparr>)))"

subsection \<open>The whole cycle\<close>

text \<open>Lines 256 to 314: what follows the scan.\<close>

definition execute_tail :: "globals \<Rightarrow> cycle_net \<Rightarrow> cycle_locals \<Rightarrow> state \<Rightarrow> (exn + bool) \<times> state" where
  "execute_tail gl net b st =
     (if \<not> best_profitable b then (Inr False, st)
      else (case gas_policy_guard gl net of
              Inl e \<Rightarrow> (Inl e, st)
            | Inr Rejected \<Rightarrow> (Inr False, st)
            | Inr (Accepted max_fee priority_fee) \<Rightarrow> submit net b max_fee priority_fee st))"

definition execute_arbitrage :: "globals \<Rightarrow> cycle_net \<Rightarrow> state \<Rightarrow> (exn + bool) \<times> state" where
  "execute_arbitrage gl net st =
     (case scan_pairs gl (probe_nets net) (PAIRS gl) initial_locals 0 st of
        (Inl e, st') \<Rightarrow> (Inl e, st')
      | (Inr (b, k), st') \<Rightarrow> execute_tail gl net b st')"

section \<open>The block watcher: \<^verbatim>\<open>handle_new_block\<close> and \<^verbatim>\<open>main\<close>\<close>

definition handle_new_block :: "globals \<Rightarrow> cycle_net \<Rightarrow> state \<Rightarrow> (bool \<times> nat) \<times> state" where
  "handle_new_block gl net st =
     (case execute_arbitrage gl net st of
        (Inr success, st') \<Rightarrow> ((success, 0), st')
      | (Inl e, st') \<Rightarrow> ((False, INITIAL_BACKOFF), emit [AlertBlockError e] st'))"

text \<open>
  One turn of the \<^verbatim>\<open>while True\<close> loop reads the chain height and, if it advanced, runs
  one cycle, which reads the module globals \<open>gl\<close>. The loop is run on the finite list of
  the network's answers to its first turns; \<open>Running\<close> says that the loop is still
  going after them, \<open>Died e\<close> that the exception \<open>e\<close> left \<^verbatim>\<open>main\<close>, \<open>Returned\<close> that
  \<^verbatim>\<open>main\<close> returned, \<open>Exited c\<close> that the module called \<^verbatim>\<open>exit(c)\<close> while it was loaded.
\<close>

record poll =
  block_number :: "exn + nat"
  cycle :: cycle_net

datatype run = Running | Returned | Died exn | Exited nat

fun main_loop :: "globals \<Rightarrow> poll list \<Rightarrow> nat \<Rightarrow> state \<Rightarrow> run \<times> state" where
  "main_loop gl [] last_block st = (Running, st)"
| "main_loop gl (p # ps) last_block st =
     (case block_number p of
        Inl e \<Rightarrow> (Died e, st)
      | Inr current_block \<Rightarrow>
          if last_block < current_block
          then (case handle_new_block gl (cycle p) st of
                  ((success, backoff), st') \<Rightarrow>
                    main_loop gl ps current_block
                      (if \<not> success \<and> backoff \<noteq> 0 then emit [Sleep backoff] st' else st'))
          else main_loop gl ps last_block (emit [Sleep POLL_INTERVAL] st))"

text \<open>\<^verbatim>\<open>main\<close>: connect, bind the contract (which checks \<^verbatim>\<open>CONTRACT_ADDRESS\<close>), configure,
  announce, read the height once inside a \<^verbatim>\<open>try\<close> whose handler returns, then loop.\<close>

record startup =
  connect :: "exn + unit"
  bind_contract :: "exn + unit"
  first_block_number :: "exn + nat"

definition main :: "startup \<Rightarrow> poll list \<Rightarrow> run \<times> state" where
  "main su polls =
     (case connect su of
        Inl e \<Rightarrow> (Died e, initial_state)
      | Inr _ \<Rightarrow>
         (case bind_contract su of
            Inl e \<Rightarrow> (Died e, initial_state)
          | Inr _ \<Rightarrow>
             (case first_block_number su of
                Inl e \<Rightarrow> (Returned, emit [AlertStarted] initial_state)
              | Inr last_block \<Rightarrow>
                  main_loop main_globals polls last_block (emit [AlertStarted] initial_state))))"

text \<open>
  Loading the module (lines 33 to 70): the six environment variables must all be
  truthy, that is set and not empty, and the ABI file must load; otherwise the module
  logs and calls \<^verbatim>\<open>exit(1)\<close>. Then \<^verbatim>\<open>asyncio.run(main())\<close>.
\<close>

record environ =
  WS_URL :: "string option"
  PRIVATE_KEY :: "string option"
  CONTRACT_ADDRESS :: "string option"
  WALLET_ADDRESS :: "string option"
  TELEGRAM_BOT_TOKEN :: "string option"
  TELEGRAM_CHAT_ID :: "string option"
  load_abi :: "exn + unit"

definition truthy :: "string option \<Rightarrow> bool" where
  "truthy v = (case v of None \<Rightarrow> False | Some s \<Rightarrow> s \<noteq> [])"

definition config_complete :: "environ \<Rightarrow> bool" where
  "config_complete env =
     list_all truthy
       [WS_URL env, PRIVATE_KEY env, CONTRACT_ADDRESS env, WALLET_ADDRESS env,
        TELEGRAM_BOT_TOKEN env, TELEGRAM_CHAT_ID env]"

definition program :: "environ \<Rightarrow> startup \<Rightarrow> poll list \<Rightarrow> run \<times> state" where
  "program env su polls =
     (if \<not> config_complete env then (Exited 1, initial_state)
      else (case load_abi env of
              Inl e \<Rightarrow> (Exited 1, initial_state)
            | Inr _ \<Rightarrow> main su polls))"

section \<open>Specification-side notions\<close>

text \<open>
  The selection rule in the words of the specification: a result qualifies when it is
  flagged profitable, its gross profit reaches the threshold and its net profit is
  positive; the selected result is the first qualifying one whose net profit no
  qualifying one exceeds. A result is listed with the pair and the amount of its probe.
\<close>

type_synonym probe_result = "pair \<times> int \<times> sim_result"

definition qualifies :: "int \<Rightarrow> probe_result \<Rightarrow> bool" where
  "qualifies t x =
     (case x of (p, amount_in, profitable, gross, net, gas_weth) \<Rightarrow>
        profitable \<and> t \<le> gross \<and> py_gt net (PInt 0))"

definition net_of :: "probe_result \<Rightarrow> pynum" where
  "net_of x = (case x of (p, amount_in, profitable, gross, net, gas_weth) \<Rightarrow> net)"

definition first_max :: "('a \<Rightarrow> 'k::linorder) \<Rightarrow> 'a list \<Rightarrow> 'a option" where
  "first_max key xs = List.find (\<lambda>r. \<forall>q\<in>set xs. key q \<le> key r) xs"

definition spec_select :: "int \<Rightarrow> probe_result list \<Rightarrow> probe_result option" where
  "spec_select t rs = first_max (\<lambda>x. num_key (net_of x)) (filter (qualifies t) rs)"

text \<open>The locals of the cycle that correspond to a selection.\<close>

definition locals_of :: "probe_result option \<Rightarrow> cycle_locals" where
  "locals_of sel =
     (case sel of
        None \<Rightarrow> initial_locals
      | Some (p, amount_in, profitable, gross, net, gas_weth) \<Rightarrow>
          \<lparr>best_pair = Some p, best_amount = Some amount_in, best_profit = gross,
           best_net_profit = net, best_profitable = True, best_gas_cost = gas_weth\<rparr>)"

text \<open>The results that the probes of a scan return, in the order of the scan: pairs in
  the outer loop, amounts in the inner loop, the probes numbered from \<open>k\<close>.\<close>

fun amount_results :: "(nat \<Rightarrow> probe_net) \<Rightarrow> pair \<Rightarrow> int list \<Rightarrow> nat \<Rightarrow> probe_result list" where
  "amount_results nets p [] k = []"
| "amount_results nets p (amount_in # amounts) k =
     (case simulate_arbitrage (nets k) p amount_in of
        Inl e \<Rightarrow> []
      | Inr (r, evs) \<Rightarrow> (p, amount_in, r) # amount_results nets p amounts (Suc k))"

fun pair_results :: "globals \<Rightarrow> (nat \<Rightarrow> probe_net) \<Rightarrow> pair list \<Rightarrow> nat \<Rightarrow> probe_result list" where
  "pair_results gl nets [] k = []"
| "pair_results gl nets (p # ps) k =
     amount_results nets p (LOAN_AMOUNTS gl) k
       @ pair_results gl nets ps (k + length (LOAN_AMOUNTS gl))"

text \<open>The events of a submission: a transaction built, signed or broadcast.\<close>

fun is_tx_event :: "event \<Rightarrow> bool" where
  "is_tx_event (TxBuilt t) = True"
| "is_tx_event (TxSigned t) = True"
| "is_tx_event (TxBroadcast t h) = True"
| "is_tx_event ev = False"

text \<open>A step from \<open>st\<close> to \<open>st'\<close> is quiet when it leaves the held nonce alone and adds
  no event of a submission to the trace.\<close>

definition quiet :: "state \<Rightarrow> state \<Rightarrow> bool" where
  "quiet st st' =
     (last_nonce st' = last_nonce st
      \<and> (\<exists>evs. trace st' = trace st @ evs \<and> (\<forall>ev\<in>set evs. \<not> is_tx_event ev)))"

text \<open>An amount that \<^verbatim>\<open>w3.from_wei\<close> accepts: an unsigned 256-bit number of wei.\<close>

definition valid_wei :: "int \<Rightarrow> bool" where
  "valid_wei a = (0 \<le> a \<and> a \<le> MAX_WEI)"

text \<open>
  A run of submissions, one per cycle that reaches the submission: each has its own
  answers of the network, its selected opportunity and its fee parameters.
\<close>

record attempt =
  a_net :: cycle_net
  a_locals :: cycle_locals
  a_max_fee :: int
  a_priority_fee :: int

fun submit_all :: "attempt list \<Rightarrow> state \<Rightarrow> (exn + bool) list \<times> state" where
  "submit_all [] st = ([], st)"
| "submit_all (a # as) st =
     (case submit (a_net a) (a_locals a) (a_max_fee a) (a_priority_fee a) st of
        (r, st') \<Rightarrow> (case submit_all as st' of (rs, st'') \<Rightarrow> (r # rs, st'')))"

section \<open>Example inputs\<close>

text \<open>
  A probe of one WETH on the WETH/USDT route: 2000 USDT out of the first pool
  (\<open>2000000000\<close> units of six decimals), 0.99 WETH back from the second, the contract
  reporting no profit, 250000 gas at 20 gwei.
\<close>

definition probe_ok :: probe_net where
  "probe_ok =
     \<lparr>quote_uniswap = Inr [1000000000000000000, 2000000000],
      quote_sushiswap = Inr [2000000000, 990000000000000000],
      simulate_call = Inr (False, 0),
      scan_estimate_gas = Inr 250000,
      scan_gas_price = Inr 20000000000,
      revert_reason = ''Could not decode revert reason''\<rparr>"

text \<open>The same probe with the contract reporting a profit of 0.002 WETH, and with
  the gas estimation failing.\<close>

definition probe_profit :: probe_net where
  "probe_profit = probe_ok\<lparr>simulate_call := Inr (True, 2000000000000000)\<rparr>"

definition probe_no_gas :: probe_net where
  "probe_no_gas = probe_ok\<lparr>scan_estimate_gas := Inl (RpcError ''execution reverted'')\<rparr>"

text \<open>
  A cycle in which every remote call succeeds: base fee 80 gwei, suggested priority
  fee 5 gwei, pending count 5, receipt with status 1.
\<close>

definition net_ok :: cycle_net where
  "net_ok =
     \<lparr>probe_nets = (\<lambda>k. probe_ok),
      latest_base_fee = Inr 80000000000,
      max_priority_fee = Inr 5000000000,
      pending_count = Inr 5,
      clock = 1700000000,
      chain_id = Inr 1,
      build_transaction = Inr (),
      estimate_gas = Inr 250000,
      sign_transaction = Inr (),
      send_raw_transaction = Inr 1,
      receipt_status = Inr 1,
      tx_revert_reason = ''execution reverted'',
      resync_count = Inr 5\<rparr>"

definition net_reverted :: cycle_net where
  "net_reverted = net_ok\<lparr>receipt_status := Inr 0\<rparr>"

definition net_build_fails :: cycle_net where
  "net_build_fails = net_ok\<lparr>build_transaction := Inl (RpcError ''connection closed'')\<rparr>"

definition net_high_fee :: cycle_net where
  "net_high_fee = net_ok\<lparr>latest_base_fee := Inr 120000000000\<rparr>"

text \<open>The configuration that \<^verbatim>\<open>main\<close> writes down, with the two caps of 100 gwei and
  2 gwei in place.\<close>

definition capped_globals :: globals where
  "capped_globals =
     main_globals\<lparr>MAX_GAS_PRICE := Some 100000000000, BASE_PRIORITY_FEE := Some 2000000000\<rparr>"

text \<open>Four results of a scan of two pairs and two amounts; the third and the fourth
  tie on the greatest net profit.\<close>

definition example_results :: "probe_result list" where
  "example_results =
     [(pair_usdt, 1000000000000000000, True, 3000000000000000, PFloat (1 / 2000), PFloat (1 / 1000)),
      (pair_usdt, 10000000000000000000, False, 0, PInt 0, PInt 0),
      (pair_usdc, 1000000000000000000, True, 5000000000000000, PFloat (1 / 500), PFloat (1 / 1000)),
      (pair_usdc, 10000000000000000000, True, 6000000000000000, PFloat (1 / 500), PFloat (1 / 1000))]"

definition example_best :: cycle_locals where
  "example_best = locals_of (Some (example_results ! 2))"

definition held_state :: state where
  "held_state = \<lparr>last_nonce = Some 5, trace = []\<rparr>"

definition example_attempt :: "cycle_net \<Rightarrow> attempt" where
  "example_attempt net =
     \<lparr>a_net = net, a_locals = example_best, a_max_fee = 82000000000, a_priority_fee = 2000000000\<rparr>"

definition example_startup :: startup where
  "example_startup = \<lparr>connect = Inr (), bind_contract = Inr (), first_block_number = Inr 100\<rparr>"

definition example_environ :: environ where
  "example_environ =
     \<lparr>WS_URL = Some ''wss://node.example'', PRIVATE_KEY = Some ''0x01'',
      CONTRACT_ADDRESS = Some ''0x0d4a11d5EEaaC28EC3F61d100daF4d40471f1852'',
      WALLET_ADDRESS = Some ''0x06da0fd433C1A5d7a4faa01111c044910A184553'',
      TELEGRAM_BOT_TOKEN = Some ''token'', TELEGRAM_CHAT_ID = Some ''1'',
      load_abi = Inr ()\<rparr>"

definition poll_failed :: poll where
  "poll_failed = \<lparr>block_number = Inl (RpcError ''connection closed''), cycle = net_ok\<rparr>"

definition poll_ok :: "nat \<Rightarrow> poll" where
  "poll_ok n = \<lparr>block_number = Inr n, cycle = net_ok\<rparr>"

text \<open>The fee and gas cost in WETH that \<open>probe_ok\<close> leads to, as binary64 numbers
  (\<^verbatim>\<open>0.002970000006\<close> and \<^verbatim>\<open>0.006\<close>).\<close>

definition example_fees_weth :: rat where
  "example_fees_weth = 6848353751199729 / 2305843009213693952"

definition example_gas_weth :: rat where
  "example_gas_weth = 3458764513820541 / 576460752303423488"

text \<open>The transaction that the submission builds for \<open>example_best\<close> in \<open>net_ok\<close> with the
  nonce \<open>n\<close>, before and after the gas limit is filled in.\<close>

definition example_tx :: "int \<Rightarrow> tx" where
  "example_tx n =
     \<lparr>tx_pair = pair_usdc, tx_amount = 1000000000000000000, tx_deadline = 1700000300,
      maxFeePerGas = 82000000000, maxPriorityFeePerGas = 2000000000, tx_nonce = n,
      chainId = 1, gas = None\<rparr>"

definition example_tx_gas :: "int \<Rightarrow> tx" where
  "example_tx_gas n = (example_tx n)\<lparr>gas := Some 300000\<rparr>"

text \<open>
  A cycle that raises: the module globals with one pair and one amount but the
  threshold still \<^verbatim>\<open>None\<close>, and a probe that the contract flags profitable with a gross
  profit of \<open>0\<close>.
\<close>

definition probe_flagged :: probe_net where
  "probe_flagged = probe_ok\<lparr>simulate_call := Inr (True, 0)\<rparr>"

definition net_flagged :: cycle_net where
  "net_flagged = net_ok\<lparr>probe_nets := (\<lambda>k. probe_flagged)\<rparr>"

definition unset_globals :: globals where
  "unset_globals =
     module_globals\<lparr>PAIRS := [pair_usdt], LOAN_AMOUNTS := [1000000000000000000]\<rparr>"

definition poll_flagged :: "nat \<Rightarrow> poll" where
  "poll_flagged n = \<lparr>block_number = Inr n, cycle = net_flagged\<rparr>"

section \<open>Facts about the rounding\<close>

lemma pow2_powi: "pow2 k = 2 powi k"
  by (simp add: pow2_def power_int_def inverse_eq_divide power_one_over)

lemma pow2_pos: "0 < pow2 k"
  by (simp add: pow2_powi)

lemma pow2_add: "pow2 (a + b) = pow2 a * pow2 b"
  by (simp add: pow2_powi power_int_add)

lemma pow2_mono: "a \<le> b \<Longrightarrow> pow2 a \<le> pow2 b"
  by (simp add: pow2_powi power_int_increasing)

lemma pow2_strict_mono: "a < b \<Longrightarrow> pow2 a < pow2 b"
  by (simp add: pow2_powi power_int_strict_increasing)

lemma pow2_less_cancel: "pow2 a < pow2 b \<Longrightarrow> a < b"
  using pow2_mono[of b a] by (cases "a < b") auto

lemma ilog2_bounds:
  assumes "0 < a"
  shows "pow2 (ilog2 a) \<le> a \<and> a < pow2 (ilog2 a + 1)"
proof -
  obtain p q where pq: "quotient_of a = (p, q)" by (cases "quotient_of a")
  then have q: "0 < q" and a: "a = of_int p / of_int q"
    by (auto simp: quotient_of_denom_pos quotient_of_div)
  with assms have p: "0 < p" by (simp add: zero_less_divide_iff)
  define bp where "bp = floorlog 2 (nat p)"
  define bq where "bq = floorlog 2 (nat q)"
  define k where "k = int bp - int bq"
  from p have bp: "2 ^ (bp - 1) \<le> nat p" "nat p < 2 ^ bp"
    using floorlog_bounds[of "nat p" 2] by (auto simp: bp_def)
  from q have bq: "2 ^ (bq - 1) \<le> nat q" "nat q < 2 ^ bq"
    using floorlog_bounds[of "nat q" 2] by (auto simp: bq_def)
  from p have bp1: "1 \<le> bp" by (simp add: bp_def floorlog_def)
  from q have bq1: "1 \<le> bq" by (simp add: bq_def floorlog_def)
  have P: "(of_int p :: rat) < 2 ^ bp"
  proof -
    from bp(2) have "int (nat p) < 2 ^ bp" by (metis of_nat_less_iff of_nat_numeral of_nat_power)
    with p have "p < 2 ^ bp" by simp
    then have "(of_int p :: rat) < of_int (2 ^ bp)" by (simp only: of_int_less_iff)
    then show ?thesis by simp
  qed
  have Q: "(2::rat) ^ (bq - 1) \<le> of_int q"
  proof -
    from bq(1) have "2 ^ (bq - 1) \<le> int (nat q)" by (metis of_nat_le_iff of_nat_numeral of_nat_power)
    with q have "2 ^ (bq - 1) \<le> q" by simp
    then have "(of_int (2 ^ (bq - 1)) :: rat) \<le> of_int q" by (simp only: of_int_le_iff)
    then show ?thesis by simp
  qed
  have upper: "a < pow2 (k + 1)"
  proof -
    have "of_int p < (2::rat) ^ bp" by (rule P)
    also have "\<dots> = pow2 (k + 1) * 2 ^ (bq - 1)"
    proof -
      have "pow2 (int bp) = pow2 (k + 1) * pow2 (int (bq - 1))"
        using bq1 by (simp add: pow2_add[symmetric] k_def of_nat_diff)
      then show ?thesis by (simp add: pow2_powi)
    qed
    also have "\<dots> \<le> pow2 (k + 1) * of_int q"
      using Q pow2_pos[of "k + 1"] by (simp add: mult_left_mono)
    finally show ?thesis using q by (simp add: a pos_divide_less_eq)
  qed
  show ?thesis
  proof (cases "pow2 k \<le> a")
    case True
    then have "ilog2 a = k" by (simp add: ilog2_def pq k_def bp_def bq_def Let_def)
    with True upper show ?thesis by simp
  next
    case False
    then have il: "ilog2 a = k - 1" by (simp add: ilog2_def pq k_def bp_def bq_def Let_def)
    have P2: "(2::rat) ^ (bp - 1) \<le> of_int p"
    proof -
      from bp(1) have "2 ^ (bp - 1) \<le> int (nat p)" by (metis of_nat_le_iff of_nat_numeral of_nat_power)
      with p have "2 ^ (bp - 1) \<le> p" by simp
      then have "(of_int (2 ^ (bp - 1)) :: rat) \<le> of_int p" by (simp only: of_int_le_iff)
      then show ?thesis by simp
    qed
    have Q2: "(of_int q :: rat) < 2 ^ bq"
    proof -
      from bq(2) have "int (nat q) < 2 ^ bq" by (metis of_nat_less_iff of_nat_numeral of_nat_power)
      with q have "q < 2 ^ bq" by simp
      then have "(of_int q :: rat) < of_int (2 ^ bq)" by (simp only: of_int_less_iff)
      then show ?thesis by simp
    qed
    have "pow2 (k - 1) * of_int q \<le> pow2 (k - 1) * 2 ^ bq"
      using Q2 pow2_pos[of "k - 1"] by (simp add: mult_left_mono)
    also have "\<dots> = 2 ^ (bp - 1)"
    proof -
      have "pow2 (k - 1) * pow2 (int bq) = pow2 (int (bp - 1))"
        using bp1 by (simp add: pow2_add[symmetric] k_def of_nat_diff)
      then show ?thesis by (simp add: pow2_powi)
    qed
    also have "\<dots> \<le> of_int p" by (rule P2)
    finally have "pow2 (k - 1) \<le> a" using q by (simp add: a pos_le_divide_eq)
    with False il show ?thesis by simp
  qed
qed

lemma ilog2_unique:
  assumes "0 < a" "pow2 k \<le> a" "a < pow2 (k + 1)"
  shows "ilog2 a = k"
proof -
  from ilog2_bounds[OF assms(1)] have b: "pow2 (ilog2 a) \<le> a" "a < pow2 (ilog2 a + 1)" by auto
  from b(1) assms(3) have "pow2 (ilog2 a) < pow2 (k + 1)" by simp
  then have "ilog2 a < k + 1" by (rule pow2_less_cancel)
  moreover from assms(2) b(2) have "pow2 k < pow2 (ilog2 a + 1)" by simp
  then have "k < ilog2 a + 1" by (rule pow2_less_cancel)
  ultimately show ?thesis by simp
qed

lemma round_half_even_cert:
  assumes "\<bar>q - of_int m\<bar> < 1 / 2"
  shows "round_half_even q = m"
proof -
  from assms have lo: "of_int m - 1 / 2 < q" and hi: "q < of_int m + 1 / 2" by linarith+
  show ?thesis
  proof (cases "of_int m \<le> q")
    case True
    with hi have "\<lfloor>q\<rfloor> = m" by (intro floor_unique) auto
    with hi show ?thesis by (simp add: round_half_even_def Let_def)
  next
    case False
    with lo have "\<lfloor>q\<rfloor> = m - 1" by (intro floor_unique) auto
    with lo show ?thesis by (simp add: round_half_even_def Let_def)
  qed
qed

lemma f64_round_cert:
  assumes "0 < x" "pow2 k \<le> x" "x < pow2 (k + 1)" "- 1022 \<le> k" "k < 1023"
    and "\<bar>x / pow2 (k - 52) - of_int m\<bar> < 1 / 2"
  shows "f64_round x = Inr (of_int m * pow2 (k - 52))"
proof -
  from assms have e: "f64_exp x = k" by (simp add: f64_exp_def ilog2_unique)
  with assms have m: "f64_mant x = m" by (simp add: f64_mant_def round_half_even_cert)
  from assms e m show ?thesis by (simp add: f64_round_def)
qed

lemma f64_exp_neg: "f64_exp (- x) = f64_exp x"
  by (simp add: f64_exp_def)

lemma f64_mant_neg: "f64_mant (- x) = f64_mant x"
  by (simp add: f64_mant_def f64_exp_neg)

lemma f64_round_neg: "f64_round (- x) = map_sum id uminus (f64_round x)"
  by (cases "x = 0") (simp_all add: f64_round_def f64_exp_neg f64_mant_neg sgn_minus)

lemma f64_mant_nonneg: "0 \<le> f64_mant x"
proof -
  have "0 \<le> \<bar>x\<bar> / pow2 (f64_exp x - 52)"
    using pow2_pos[of "f64_exp x - 52"] by simp
  then have "0 \<le> \<lfloor>\<bar>x\<bar> / pow2 (f64_exp x - 52)\<rfloor>" by simp
  then show ?thesis by (auto simp: f64_mant_def round_half_even_def Let_def)
qed

lemma f64_round_sign:
  assumes "f64_round x = Inr y"
  shows "(0 \<le> x \<longrightarrow> 0 \<le> y) \<and> (x \<le> 0 \<longrightarrow> y \<le> 0)"
proof (cases "x = 0")
  case True
  with assms show ?thesis by (simp add: f64_round_def)
next
  case False
  with assms have y: "y = sgn x * (of_int (f64_mant x) * pow2 (f64_exp x - 52))"
    by (auto simp: f64_round_def split: if_splits)
  have "0 \<le> of_int (f64_mant x) * pow2 (f64_exp x - 52)"
    using f64_mant_nonneg[of x] pow2_pos[of "f64_exp x - 52"] by simp
  with y show ?thesis by (auto simp: sgn_if mult_le_0_iff)
qed

section \<open>The example probe, operation by operation\<close>

lemma fee_token_example: "int_mul_float 2000000000 FEE_RATE = Inr 6000000"
proof -
  have "float_of_int 2000000000 = Inr 2000000000"
    using f64_round_cert [of 2000000000 30 8388608000000000]
    by (simp add: pow2_def float_of_int_def)
  moreover have "float_mul 2000000000 FEE_RATE = Inr 6000000"
    using f64_round_cert [of "2000000000 * FEE_RATE" 22 6442450944000000]
    by (simp add: pow2_def float_mul_def FEE_RATE_def)
  ultimately show ?thesis by (simp add: int_mul_float_def bind_exn_def)
qed

lemma fee_weth_example: "int_mul_float 990000000000000000 FEE_RATE = Inr 2970000000000000"
proof -
  have "float_of_int 990000000000000000 = Inr 990000000000000000"
    using f64_round_cert [of 990000000000000000 59 7734375000000000]
    by (simp add: pow2_def float_of_int_def)
  moreover have "float_mul 990000000000000000 FEE_RATE = Inr 2970000000000000"
    using f64_round_cert [of "990000000000000000 * FEE_RATE" 51 5940000000000000]
    by (simp add: pow2_def float_mul_def FEE_RATE_def)
  ultimately show ?thesis by (simp add: int_mul_float_def bind_exn_def)
qed

lemma fee_sum_example: "float_add 6000000 2970000000000000 = Inr 2970000006000000"
  using f64_round_cert [of 2970000006000000 51 5940000012000000]
  by (simp add: pow2_def float_add_def)

lemma fees_weth_example: "int_div_float 2970000006000000 ONE_E18 = Inr example_fees_weth"
proof -
  have "float_of_int 2970000006000000 = Inr 2970000006000000"
    using f64_round_cert [of 2970000006000000 51 5940000012000000]
    by (simp add: pow2_def float_of_int_def)
  moreover have "float_div 2970000006000000 ONE_E18 = Inr example_fees_weth"
    using f64_round_cert [of "2970000006000000 / ONE_E18" "- 9" 6848353751199729]
    by (simp add: pow2_def float_div_def ONE_E18_def example_fees_weth_def)
  ultimately show ?thesis by (simp add: int_div_float_def bind_exn_def)
qed

lemma estimate_fees_example:
  "estimate_fees 2000000000 990000000000000000 = Inr (2970000006000000, example_fees_weth)"
proof -
  have "int_of_float 2970000006000000 = 2970000006000000"
    by (simp add: int_of_float_def)
  then show ?thesis
    using fee_token_example fee_weth_example fee_sum_example fees_weth_example
    by (simp add: estimate_fees_def bind_exn_def)
qed

lemma gas_buffered_example: "int_mul_float 250000 GAS_BUFFER = Inr 300000"
proof -
  have "float_of_int 250000 = Inr 250000"
    using f64_round_cert [of 250000 17 8589934592000000]
    by (simp add: pow2_def float_of_int_def)
  moreover have "float_mul 250000 GAS_BUFFER = Inr 300000"
    using f64_round_cert [of "250000 * GAS_BUFFER" 18 5153960755200000]
    by (simp add: pow2_def float_mul_def GAS_BUFFER_def)
  ultimately show ?thesis by (simp add: int_mul_float_def bind_exn_def)
qed

lemma buffered_gas_cost_example: "buffered_gas_cost 250000 20000000000 = Inr 6000000000000000"
proof -
  have "float_of_int 20000000000 = Inr 20000000000"
    using f64_round_cert [of 20000000000 34 5242880000000000]
    by (simp add: pow2_def float_of_int_def)
  moreover have "float_mul 300000 20000000000 = Inr 6000000000000000"
    using f64_round_cert [of 6000000000000000 52 6000000000000000]
    by (simp add: pow2_def float_mul_def)
  moreover have "int_of_float 6000000000000000 = 6000000000000000"
    by (simp add: int_of_float_def)
  ultimately show ?thesis
    using gas_buffered_example by (simp add: buffered_gas_cost_def bind_exn_def)
qed

lemma gas_weth_example: "int_truediv 6000000000000000 ETHER = Inr example_gas_weth"
  using f64_round_cert [of "6000000000000000 / 1000000000000000000" "- 8" 6917529027641082]
  by (simp add: pow2_def int_truediv_def ETHER_def example_gas_weth_def)

lemma estimate_gas_cost_example:
  assumes "scan_estimate_gas net = Inr 250000" and "scan_gas_price net = Inr 20000000000"
  shows "estimate_gas_cost net amount_in =
     Inr \<lparr>gas_estimate = Some 250000, gas_price = Some 20000000000,
          gas_cost_wei = Some 6000000000000000, gas_cost_weth = example_gas_weth\<rparr>"
  using assms buffered_gas_cost_example gas_weth_example
  by (simp add: estimate_gas_cost_def)

lemma float_sub_zero: "f64_round y = Inr y \<Longrightarrow> float_sub 0 y = Inr (- y)"
  by (simp add: float_sub_def f64_round_neg)

lemma fees_weth_is_float: "f64_round example_fees_weth = Inr example_fees_weth"
  using f64_round_cert [of example_fees_weth "- 9" 6848353751199729]
  by (simp add: pow2_def example_fees_weth_def)

lemma net_profit_example:
  "net_profit 0 example_fees_weth example_gas_weth = Inr (- (5170852951620473 / 576460752303423488))"
proof -
  have "float_of_int 0 = Inr 0" by (simp add: float_of_int_def f64_round_def)
  moreover have "f64_round (example_fees_weth + example_gas_weth) = Inr (5170852951620473 / 576460752303423488)"
    using f64_round_cert [of "example_fees_weth + example_gas_weth" "- 7" 5170852951620473]
    by (simp add: pow2_def example_fees_weth_def example_gas_weth_def)
  then have "float_sub (- example_fees_weth) example_gas_weth = Inr (- (5170852951620473 / 576460752303423488))"
    using f64_round_neg [of "example_fees_weth + example_gas_weth"] by (simp add: float_sub_def)
  ultimately show ?thesis
    using float_sub_zero [OF fees_weth_is_float]
    by (simp add: net_profit_def from_wei_def bind_exn_def)
qed

lemma simulate_body_example:
  assumes "valid_wei amount_in"
    and "quote_uniswap net = Inr [1000000000000000000, 2000000000]"
    and "quote_sushiswap net = Inr [2000000000, 990000000000000000]"
    and "simulate_call net = Inr (profitable, 0)"
    and "scan_estimate_gas net = Inr 250000"
    and "scan_gas_price net = Inr 20000000000"
  shows "simulate_body net p amount_in =
           Inr (profitable, 0, PFloat (- (5170852951620473 / 576460752303423488)),
                PFloat example_gas_weth)"
proof -
  from assms(1) have "\<exists>v. from_wei amount_in ETHER = Inr v"
    by (auto simp: from_wei_def valid_wei_def)
  then show ?thesis
    using assms(2-6) estimate_fees_example estimate_gas_cost_example [OF assms(5,6), of amount_in]
      net_profit_example
    by (auto simp: simulate_body_def bind_exn_def py_last_def)
qed

section \<open>What a probe returns\<close>

lemma MAX_WEI_pos: "0 < MAX_WEI"
  by (simp add: MAX_WEI_def)

lemma from_wei_valid: "valid_wei a \<Longrightarrow> \<exists>v. from_wei a u = Inr v"
  by (auto simp: from_wei_def valid_wei_def)

lemma from_wei_invalid: "\<not> valid_wei a \<Longrightarrow> from_wei a u = Inl ValueError"
  using MAX_WEI_pos by (auto simp: from_wei_def valid_wei_def)

lemma simulate_arbitrage_total:
  assumes "valid_wei amount_in"
  shows "simulate_arbitrage net p amount_in \<noteq> Inl e"
proof -
  from from_wei_valid [OF assms, of ETHER] obtain v where "from_wei amount_in ETHER = Inr v" ..
  then show ?thesis
    by (cases "simulate_body net p amount_in") (simp_all add: simulate_arbitrage_def)
qed

lemma simulate_arbitrage_failure:
  assumes "valid_wei amount_in" and "simulate_body net p amount_in = Inl e"
  shows "simulate_arbitrage net p amount_in =
           Inr (failure_tuple, [AlertSimulationFailed (revert_reason net)])"
  using from_wei_valid [OF assms(1), of ETHER] assms(2)
  by (auto simp: simulate_arbitrage_def)

lemma net_profit_nonzero:
  assumes "estimated_profit \<noteq> 0"
  shows "net_profit estimated_profit fees gas_weth =
           Inl (if valid_wei estimated_profit then TypeError else ValueError)"
  using assms MAX_WEI_pos
  by (auto simp: net_profit_def from_wei_def valid_wei_def bind_exn_def)

lemma simulate_body_nonzero:
  assumes "simulate_call net = Inr (profitable, estimated_profit)" and "estimated_profit \<noteq> 0"
  shows "\<exists>e. simulate_body net p amount_in = Inl e"
  using assms net_profit_nonzero [OF assms(2)]
  by (auto simp: simulate_body_def bind_exn_def split: sum.splits prod.splits)

lemma float_of_int_nonneg: "float_of_int i = Inr a \<Longrightarrow> 0 \<le> i \<Longrightarrow> 0 \<le> a"
  using f64_round_sign [of "of_int i" a] by (simp add: float_of_int_def)

lemma int_mul_float_nonneg: "int_mul_float i b = Inr c \<Longrightarrow> 0 \<le> i \<Longrightarrow> 0 \<le> b \<Longrightarrow> 0 \<le> c"
  using f64_round_sign float_of_int_nonneg
  by (fastforce simp: int_mul_float_def float_mul_def bind_exn_def split: sum.splits)

lemma int_of_float_nonneg: "0 \<le> x \<Longrightarrow> 0 \<le> int_of_float x"
  by (simp add: int_of_float_def)

lemma FEE_RATE_nonneg: "0 \<le> FEE_RATE"
  by (simp add: FEE_RATE_def)

lemma GAS_BUFFER_nonneg: "0 \<le> GAS_BUFFER"
  by (simp add: GAS_BUFFER_def)

lemma estimate_fees_nonneg:
  assumes "estimate_fees token_out weth_out = Inr (w, f)"
  shows "0 \<le> f"
proof -
  from assms obtain a b s x where
    a: "int_mul_float (int token_out) FEE_RATE = Inr a" and
    b: "int_mul_float (int weth_out) FEE_RATE = Inr b" and
    s: "float_add a b = Inr s" and
    f: "int_div_float (int_of_float s) ONE_E18 = Inr f"
    by (auto simp: estimate_fees_def bind_exn_def split: sum.splits)
  from a b have "0 \<le> a" "0 \<le> b"
    using int_mul_float_nonneg FEE_RATE_nonneg by (metis of_nat_0_le_iff)+
  with s have "0 \<le> s" using f64_round_sign [of "a + b" s] by (simp add: float_add_def)
  then have i: "0 \<le> int_of_float s" by (rule int_of_float_nonneg)
  from f obtain y where y: "float_of_int (int_of_float s) = Inr y" "float_div y ONE_E18 = Inr f"
    by (auto simp: int_div_float_def bind_exn_def split: sum.splits)
  from y(1) i have "0 \<le> y" by (rule float_of_int_nonneg)
  with y(2) show ?thesis
    using f64_round_sign [of "y / ONE_E18" f] by (simp add: float_div_def ONE_E18_def)
qed

lemma buffered_gas_cost_nonneg: "buffered_gas_cost ge gp = Inr c \<Longrightarrow> 0 \<le> c"
proof -
  assume "buffered_gas_cost ge gp = Inr c"
  then obtain b p x where b: "int_mul_float (int ge) GAS_BUFFER = Inr b"
    and p: "float_of_int (int gp) = Inr p" and x: "float_mul b p = Inr x" and c: "c = int_of_float x"
    by (auto simp: buffered_gas_cost_def bind_exn_def split: sum.splits)
  from b have "0 \<le> b" using int_mul_float_nonneg GAS_BUFFER_nonneg by (metis of_nat_0_le_iff)
  moreover from p have "0 \<le> p" using float_of_int_nonneg by (metis of_nat_0_le_iff)
  ultimately have "0 \<le> x" using x f64_round_sign [of "b * p" x] by (simp add: float_mul_def)
  with c show ?thesis by (simp add: int_of_float_nonneg)
qed

lemma estimate_gas_cost_nonneg:
  assumes "estimate_gas_cost net amount_in = Inr g"
  shows "0 \<le> gas_cost_weth g"
proof -
  have fb: "gas_fallback amount_in a b c = Inr g \<Longrightarrow> 0 \<le> gas_cost_weth g" for a b c
    by (auto simp: gas_fallback_def bind_exn_def FALLBACK_GAS_COST_def split: sum.splits)
  have dv: "int_truediv c ETHER = Inr w \<Longrightarrow> 0 \<le> c \<Longrightarrow> 0 \<le> w" for c w
    using f64_round_sign [of "of_int c / of_int ETHER" w] by (simp add: int_truediv_def ETHER_def)
  from assms show ?thesis
    using fb dv buffered_gas_cost_nonneg
    by (fastforce simp: estimate_gas_cost_def split: sum.splits)
qed

lemma net_profit_nonpos:
  assumes "net_profit estimated_profit fees gas_weth = Inr n" and "0 \<le> fees" and "0 \<le> gas_weth"
  shows "n \<le> 0"
proof -
  from assms(1) have z: "estimated_profit = 0"
    using net_profit_nonzero [of estimated_profit fees gas_weth] by auto
  with assms(1) obtain a d where a: "float_of_int 0 = Inr a" and d: "float_sub a fees = Inr d"
    and n: "float_sub d gas_weth = Inr n"
    by (auto simp: net_profit_def from_wei_def bind_exn_def split: sum.splits)
  from a have "a = 0" by (simp add: float_of_int_def f64_round_def)
  with d assms(2) have "d \<le> 0" using f64_round_sign [of "0 - fees" d] by (simp add: float_sub_def)
  with n assms(3) show ?thesis using f64_round_sign [of "d - gas_weth" n] by (simp add: float_sub_def)
qed

lemma simulate_body_net_nonpos:
  assumes "simulate_body net p amount_in = Inr (profitable, gross, nt, g)"
  shows "\<exists>n. nt = PFloat n \<and> n \<le> 0"
  using assms estimate_fees_nonneg estimate_gas_cost_nonneg net_profit_nonpos
  by (fastforce simp: simulate_body_def bind_exn_def split: sum.splits prod.splits if_splits)

lemma never_selectable:
  assumes "simulate_arbitrage net p amount_in = Inr (r, evs)"
  shows "\<not> qualifies t (p, amount_in, r)"
proof (cases "simulate_body net p amount_in")
  case (Inl e)
  with assms have "r = failure_tuple" by (auto simp: simulate_arbitrage_def split: sum.splits)
  then show ?thesis by (simp add: qualifies_def failure_tuple_def)
next
  case (Inr r')
  with assms have r: "r = r'" by (simp add: simulate_arbitrage_def)
  obtain pr gr nt g where "r' = (pr, gr, nt, g)" by (cases r') auto
  with Inr r simulate_body_net_nonpos show ?thesis
    by (fastforce simp: qualifies_def py_gt_def)
qed

text \<open>
  Claim C3, as amended. When the contract's simulation reports a non-zero gross profit,
  the probe returns the failure tuple \<^verbatim>\<open>(False, 0, 0, 0)\<close> and sends the failure alert,
  whatever the other remote calls answer: for a profit within the wei range
  \<^verbatim>\<open>w3.from_wei\<close> yields a \<^verbatim>\<open>Decimal\<close> and subtracting the float fee raises
  \<^verbatim>\<open>TypeError\<close>. And no result that a probe returns qualifies for selection, at any
  threshold.
\<close>

theorem probe_fails_on_nonzero_profit:
  "(valid_wei amount_in \<and> simulate_call net = Inr (profitable, estimated_profit)
      \<and> estimated_profit \<noteq> 0 \<longrightarrow>
        simulate_arbitrage net p amount_in =
          Inr (failure_tuple, [AlertSimulationFailed (revert_reason net)])
        \<and> (valid_wei estimated_profit \<longrightarrow>
             net_profit estimated_profit fees gas_weth = Inl TypeError))
   \<and> (\<forall>r evs. simulate_arbitrage net p amount_in = Inr (r, evs) \<longrightarrow>
         \<not> qualifies t (p, amount_in, r))"
  using simulate_body_nonzero [of net profitable estimated_profit p amount_in]
    simulate_arbitrage_failure [of amount_in net p]
    net_profit_nonzero [of estimated_profit fees gas_weth]
    never_selectable [of net p amount_in]
  by auto

theorem probe_fails_on_nonzero_profit_witness:
  "valid_wei 1000000000000000000
   \<and> simulate_call probe_profit = Inr (True, 2000000000000000)
   \<and> simulate_arbitrage probe_profit pair_usdt 1000000000000000000 =
       Inr (failure_tuple, [AlertSimulationFailed ''Could not decode revert reason''])
   \<and> net_profit 2000000000000000 example_fees_weth example_gas_weth = Inl TypeError
   \<and> \<not> qualifies 1000000000000 (pair_usdt, 1000000000000000000, failure_tuple)"
proof -
  have v: "valid_wei 1000000000000000000" "valid_wei 2000000000000000"
    by (simp_all add: valid_wei_def MAX_WEI_def)
  have c: "simulate_call probe_profit = Inr (True, 2000000000000000)"
    by (simp add: probe_profit_def probe_ok_def)
  have r: "revert_reason probe_profit = ''Could not decode revert reason''"
    by (simp add: probe_profit_def probe_ok_def)
  note th = probe_fails_on_nonzero_profit
    [where amount_in = 1000000000000000000 and net = probe_profit and profitable = True
       and estimated_profit = 2000000000000000 and p = pair_usdt
       and fees = example_fees_weth and gas_weth = example_gas_weth and t = 1000000000000]
  from th v c have 1: "simulate_arbitrage probe_profit pair_usdt 1000000000000000000 =
      Inr (failure_tuple, [AlertSimulationFailed (revert_reason probe_profit)])"
    and 2: "net_profit 2000000000000000 example_fees_weth example_gas_weth = Inl TypeError"
    by simp_all
  from th 1 have 3: "\<not> qualifies 1000000000000 (pair_usdt, 1000000000000000000, failure_tuple)"
    by blast
  from v c 1 2 3 r show ?thesis by simp
qed

lemma simulate_arbitrage_example:
  "simulate_arbitrage probe_ok pair_usdt 1000000000000000000 =
     Inr ((False, 0, PFloat (- (5170852951620473 / 576460752303423488)), PFloat example_gas_weth), [])"
proof -
  have "valid_wei 1000000000000000000" by (simp add: valid_wei_def MAX_WEI_def)
  from simulate_body_example [OF this, of probe_ok False pair_usdt] show ?thesis
    by (simp add: simulate_arbitrage_def probe_ok_def)
qed

text \<open>
  Claim C3 as stated fails when the simulation reports the gross profit \<open>0\<close>: then
  \<^verbatim>\<open>w3.from_wei\<close> returns the int \<open>0\<close>, the subtraction is a float subtraction, and the
  probe returns its own figures, here a net profit of about \<open>-0.00897\<close> WETH.
\<close>

theorem probe_zero_profit_counterexample:
  "quote_uniswap probe_ok = Inr [1000000000000000000, 2000000000]
   \<and> quote_sushiswap probe_ok = Inr [2000000000, 990000000000000000]
   \<and> simulate_call probe_ok = Inr (False, 0)
   \<and> scan_estimate_gas probe_ok = Inr 250000
   \<and> scan_gas_price probe_ok = Inr 20000000000
   \<and> simulate_arbitrage probe_ok pair_usdt 1000000000000000000 =
       Inr ((False, 0, PFloat (- (5170852951620473 / 576460752303423488)),
             PFloat (3458764513820541 / 576460752303423488)), [])
   \<and> simulate_arbitrage probe_ok pair_usdt 1000000000000000000 \<noteq> Inr (failure_tuple, [])
   \<and> num_key (PFloat (- (5170852951620473 / 576460752303423488))) < num_key (PInt 0)"
  using simulate_arbitrage_example
  by (simp add: probe_ok_def failure_tuple_def example_gas_weth_def)

section \<open>Selection\<close>

lemma ex_max_key:
  "xs \<noteq> [] \<Longrightarrow> \<exists>r\<in>set xs. \<forall>q\<in>set xs. key q \<le> (key r :: 'k::linorder)"
proof (induction xs)
  case Nil
  then show ?case by simp
next
  case (Cons a xs)
  show ?case
  proof (cases "xs = []")
    case True
    then show ?thesis by simp
  next
    case False
    with Cons.IH obtain r where r: "r \<in> set xs" "\<forall>q\<in>set xs. key q \<le> key r" by blast
    show ?thesis
    proof (cases "key r \<le> key a")
      case True
      with r have "\<forall>q\<in>set (a # xs). key q \<le> key a" by auto
      then show ?thesis by auto
    next
      case False
      with r have "\<forall>q\<in>set (a # xs). key q \<le> key r" by auto
      with r(1) show ?thesis by auto
    qed
  qed
qed

lemma first_max_None: "first_max key xs = None \<longleftrightarrow> xs = []"
  using ex_max_key [of xs key] by (auto simp: first_max_def find_None_iff)

lemma find_snoc:
  "List.find P (xs @ [x]) =
     (case List.find P xs of None \<Rightarrow> (if P x then Some x else None) | Some y \<Rightarrow> Some y)"
  by (induction xs) auto

lemma first_max_snoc:
  "first_max key (xs @ [x]) =
     (case first_max key xs of None \<Rightarrow> Some x
      | Some r \<Rightarrow> if key r < key x then Some x else Some r)"
proof (cases "first_max key xs")
  case None
  then have "xs = []" by (simp add: first_max_None)
  with None show ?thesis by (simp add: first_max_def)
next
  case (Some r)
  then have r: "r \<in> set xs" "\<forall>q\<in>set xs. key q \<le> key r"
    unfolding first_max_def find_Some_iff by auto
  show ?thesis
  proof (cases "key r < key x")
    case True
    with r have "List.find (\<lambda>y. \<forall>q\<in>set (xs @ [x]). key q \<le> key y) xs = None"
      by (auto simp: find_None_iff)
    moreover from True r have "\<forall>q\<in>set (xs @ [x]). key q \<le> key x" by fastforce
    ultimately have "first_max key (xs @ [x]) = Some x"
      unfolding first_max_def find_snoc by simp
    with Some True show ?thesis by simp
  next
    case False
    then have "key x \<le> key r" by simp
    with r have "\<And>y. y \<in> set xs \<Longrightarrow>
        (\<forall>q\<in>set (xs @ [x]). key q \<le> key y) = (\<forall>q\<in>set xs. key q \<le> key y)"
      by (auto intro: order_trans)
    then have "List.find (\<lambda>y. \<forall>q\<in>set (xs @ [x]). key q \<le> key y) xs
             = List.find (\<lambda>y. \<forall>q\<in>set xs. key q \<le> key y) xs"
      by (intro find_cong) auto
    with Some have "first_max key (xs @ [x]) = Some r"
      unfolding first_max_def find_snoc by simp
    with Some False show ?thesis by simp
  qed
qed

lemma spec_select_snoc:
  "spec_select t (rs @ [x]) =
     (if \<not> qualifies t x then spec_select t rs
      else case spec_select t rs of None \<Rightarrow> Some x
           | Some r \<Rightarrow> if num_key (net_of r) < num_key (net_of x) then Some x else Some r)"
  by (simp add: spec_select_def first_max_snoc)

lemma spec_select_None: "spec_select t rs = None \<longleftrightarrow> (\<forall>x\<in>set rs. \<not> qualifies t x)"
  by (auto simp: spec_select_def first_max_None filter_empty_conv)

lemma spec_select_first:
  "spec_select t rs = Some x \<Longrightarrow>
   \<exists>i<length rs. rs ! i = x \<and> qualifies t x
     \<and> (\<forall>j<length rs. qualifies t (rs ! j) \<longrightarrow> num_key (net_of (rs ! j)) \<le> num_key (net_of x))
     \<and> (\<forall>j<i. qualifies t (rs ! j) \<longrightarrow> num_key (net_of (rs ! j)) < num_key (net_of x))"
proof (induction rs arbitrary: x rule: rev_induct)
  case Nil
  then show ?case by (simp add: spec_select_def first_max_def)
next
  case (snoc y rs)
  show ?case
  proof (cases "qualifies t y")
    case False
    with snoc.prems have "spec_select t rs = Some x" by (simp add: spec_select_snoc)
    from snoc.IH [OF this] obtain i where i: "i < length rs" "rs ! i = x" "qualifies t x"
      "\<forall>j<length rs. qualifies t (rs ! j) \<longrightarrow> num_key (net_of (rs ! j)) \<le> num_key (net_of x)"
      "\<forall>j<i. qualifies t (rs ! j) \<longrightarrow> num_key (net_of (rs ! j)) < num_key (net_of x)"
      by blast
    have "\<forall>j<length (rs @ [y]). qualifies t ((rs @ [y]) ! j) \<longrightarrow>
            num_key (net_of ((rs @ [y]) ! j)) \<le> num_key (net_of x)"
      using i(4) False by (auto simp: nth_append less_Suc_eq)
    moreover have "\<forall>j<i. qualifies t ((rs @ [y]) ! j) \<longrightarrow>
            num_key (net_of ((rs @ [y]) ! j)) < num_key (net_of x)"
      using i(1,5) by (auto simp: nth_append)
    ultimately show ?thesis using i(1,2,3)
      by (intro exI [of _ i]) (auto simp: nth_append)
  next
    case True
    show ?thesis
    proof (cases "spec_select t rs")
      case None
      with True snoc.prems have x: "x = y" by (simp add: spec_select_snoc)
      from None have no: "\<forall>z\<in>set rs. \<not> qualifies t z" by (simp add: spec_select_None)
      then have "\<forall>j<length rs. \<not> qualifies t (rs ! j)" by simp
      then show ?thesis using True x
        by (intro exI [of _ "length rs"]) (auto simp: nth_append less_Suc_eq)
    next
      case (Some r)
      from snoc.IH [OF Some] obtain i where i: "i < length rs" "rs ! i = r" "qualifies t r"
        "\<forall>j<length rs. qualifies t (rs ! j) \<longrightarrow> num_key (net_of (rs ! j)) \<le> num_key (net_of r)"
        "\<forall>j<i. qualifies t (rs ! j) \<longrightarrow> num_key (net_of (rs ! j)) < num_key (net_of r)"
        by blast
      show ?thesis
      proof (cases "num_key (net_of r) < num_key (net_of y)")
        case gt: True
        with True Some snoc.prems have x: "x = y" by (simp add: spec_select_snoc)
        have "\<forall>j<length rs. qualifies t (rs ! j) \<longrightarrow> num_key (net_of (rs ! j)) < num_key (net_of y)"
          using i(4) gt by (auto intro: le_less_trans)
        then show ?thesis using True x
          by (intro exI [of _ "length rs"]) (auto simp: nth_append less_Suc_eq intro: less_imp_le)
      next
        case le: False
        with True Some snoc.prems have x: "x = r" by (simp add: spec_select_snoc)
        have "\<forall>j<length (rs @ [y]). qualifies t ((rs @ [y]) ! j) \<longrightarrow>
            num_key (net_of ((rs @ [y]) ! j)) \<le> num_key (net_of r)"
          using i(4) le by (auto simp: nth_append less_Suc_eq)
        moreover have "\<forall>j<i. qualifies t ((rs @ [y]) ! j) \<longrightarrow>
            num_key (net_of ((rs @ [y]) ! j)) < num_key (net_of r)"
          using i(1,5) by (auto simp: nth_append)
        ultimately show ?thesis using i(1,2,3) x
          by (intro exI [of _ i]) (auto simp: nth_append)
      qed
    qed
  qed
qed

lemma select_all_snoc:
  "select_all thr (rs @ [(p, a, r)]) b =
     bind_exn (select_all thr rs b) (\<lambda>b'. select_step thr b' p a r)"
  by (induction rs arbitrary: b) (auto simp: bind_exn_def split: sum.splits)

lemma select_all_spec:
  "select_all (Some t) rs initial_locals = Inr (locals_of (spec_select t rs))"
proof (induction rs rule: rev_induct)
  case Nil
  then show ?case by (simp add: spec_select_def first_max_def locals_of_def)
next
  case (snoc x rs)
  obtain p a profitable gross net g where x: "x = (p, a, profitable, gross, net, g)"
    by (cases x) auto
  show ?case
  proof (cases "qualifies t x")
    case False
    then have "spec_select t (rs @ [x]) = spec_select t rs" by (simp add: spec_select_snoc)
    moreover from False have "select_step (Some t) b p a (profitable, gross, net, g) = Inr b" for b
      by (auto simp: select_step_def qualifies_def x)
    ultimately show ?thesis using snoc by (simp add: x select_all_snoc bind_exn_def)
  next
    case True
    show ?thesis
    proof (cases "spec_select t rs")
      case None
      with True snoc show ?thesis
        by (auto simp: x spec_select_snoc select_all_snoc bind_exn_def select_step_def
            qualifies_def locals_of_def initial_locals_def py_gt_def net_of_def less_option_def
            split: option.splits)
    next
      case (Some r)
      with True snoc show ?thesis
        by (auto simp: x spec_select_snoc select_all_snoc bind_exn_def select_step_def
            qualifies_def locals_of_def py_gt_def net_of_def split: prod.splits)
    qed
  qed
qed

section \<open>The scan\<close>

lemma emit_nonce [simp]: "last_nonce (emit evs st) = last_nonce st"
  by (simp add: emit_def)

lemma emit_trace [simp]: "trace (emit evs st) = trace st @ evs"
  by (simp add: emit_def)

lemma simulate_arbitrage_events:
  "simulate_arbitrage net p amount_in = Inr (r, evs) \<Longrightarrow> \<forall>ev\<in>set evs. \<not> is_tx_event ev"
  by (auto simp: simulate_arbitrage_def split: sum.splits)

lemma quiet_refl: "quiet st st"
  by (simp add: quiet_def)

lemma quiet_trans: "quiet st st1 \<Longrightarrow> quiet st1 st2 \<Longrightarrow> quiet st st2"
  by (auto simp: quiet_def)

lemma probe_step_quiet:
  assumes "probe_step gl net p amount_in b st = (r, st')"
  shows "quiet st st'"
  using assms simulate_arbitrage_events [of net p amount_in]
  by (auto simp: probe_step_def quiet_def Let_def split: sum.splits prod.splits)

lemma scan_amounts_quiet:
  "scan_amounts gl nets p amounts b k st = (r, st') \<Longrightarrow> quiet st st'"
proof (induction amounts arbitrary: b k st)
  case Nil
  then show ?case by (simp add: quiet_refl)
next
  case (Cons a amounts)
  obtain r1 st1 where s: "probe_step gl (nets k) p a b st = (r1, st1)"
    by (cases "probe_step gl (nets k) p a b st")
  from s have q: "quiet st st1" by (rule probe_step_quiet)
  show ?case
  proof (cases r1)
    case (Inl e)
    with Cons.prems s q show ?thesis by simp
  next
    case (Inr b')
    with Cons.prems s have "scan_amounts gl nets p amounts b' (Suc k) st1 = (r, st')" by simp
    from Cons.IH [OF this] q show ?thesis by (rule quiet_trans [rotated])
  qed
qed

lemma scan_pairs_quiet:
  "scan_pairs gl nets ps b k st = (r, st') \<Longrightarrow> quiet st st'"
proof (induction ps arbitrary: b k st)
  case Nil
  then show ?case by (simp add: quiet_refl)
next
  case (Cons p ps)
  obtain r1 st1 where s: "scan_amounts gl nets p (LOAN_AMOUNTS gl) b k st = (r1, st1)"
    by (cases "scan_amounts gl nets p (LOAN_AMOUNTS gl) b k st")
  from s have q: "quiet st st1" by (rule scan_amounts_quiet)
  show ?case
  proof (cases r1)
    case (Inl e)
    with Cons.prems s q show ?thesis by simp
  next
    case (Inr bk)
    obtain b' k' where "bk = (b', k')" by (cases bk)
    with Inr Cons.prems s have "scan_pairs gl nets ps b' k' st1 = (r, st')" by simp
    from Cons.IH [OF this] q show ?thesis by (rule quiet_trans [rotated])
  qed
qed

text \<open>No probe result qualifies, so the scan hands its locals on unchanged.\<close>

lemma select_step_unqualified:
  assumes "select_step thr b p amount_in r = Inr b'" and "\<forall>t. \<not> qualifies t (p, amount_in, r)"
  shows "b' = b"
proof -
  obtain pr gr nt g where r: "r = (pr, gr, nt, g)" by (cases r) auto
  show ?thesis
  proof (cases thr)
    case None
    with assms(1) r show ?thesis by (auto simp: select_step_def split: if_splits)
  next
    case (Some t)
    from assms(2) have "\<not> qualifies t (p, amount_in, r)" by simp
    with assms(1) r Some show ?thesis by (auto simp: select_step_def qualifies_def split: if_splits)
  qed
qed

lemma probe_step_keeps_locals:
  assumes "probe_step gl net p amount_in b st = (Inr b', st')"
  shows "b' = b"
proof -
  from assms obtain r evs where s: "simulate_arbitrage net p amount_in = Inr (r, evs)"
    and t: "select_step (MIN_PROFIT_THRESHOLD gl) b p amount_in r = Inr b'"
    by (auto simp: probe_step_def Let_def split: sum.splits prod.splits)
  from never_selectable [OF s] have "\<forall>t. \<not> qualifies t (p, amount_in, r)" by simp
  with t show ?thesis by (rule select_step_unqualified)
qed

lemma scan_amounts_keeps_locals:
  "scan_amounts gl nets p amounts b k st = (Inr (b', k'), st') \<Longrightarrow> b' = b"
proof (induction amounts arbitrary: b k st)
  case Nil
  then show ?case by simp
next
  case (Cons a amounts)
  obtain r1 st1 where s: "probe_step gl (nets k) p a b st = (r1, st1)"
    by (cases "probe_step gl (nets k) p a b st")
  show ?case
  proof (cases r1)
    case (Inl e)
    with Cons.prems s show ?thesis by simp
  next
    case (Inr b1)
    with s have "b1 = b" using probe_step_keeps_locals by blast
    with Inr Cons.prems s have "scan_amounts gl nets p amounts b (Suc k) st1 = (Inr (b', k'), st')"
      by simp
    from Cons.IH [OF this] show ?thesis .
  qed
qed

lemma scan_pairs_keeps_locals:
  "scan_pairs gl nets ps b k st = (Inr (b', k'), st') \<Longrightarrow> b' = b"
proof (induction ps arbitrary: b k st)
  case Nil
  then show ?case by simp
next
  case (Cons p ps)
  obtain r1 st1 where s: "scan_amounts gl nets p (LOAN_AMOUNTS gl) b k st = (r1, st1)"
    by (cases "scan_amounts gl nets p (LOAN_AMOUNTS gl) b k st")
  show ?case
  proof (cases r1)
    case (Inl e)
    with Cons.prems s show ?thesis by simp
  next
    case (Inr bk)
    obtain b1 k1 where bk: "bk = (b1, k1)" by (cases bk)
    with Inr s have "b1 = b" using scan_amounts_keeps_locals by blast
    with bk Inr Cons.prems s have "scan_pairs gl nets ps b k1 st1 = (Inr (b', k'), st')" by simp
    from Cons.IH [OF this] show ?thesis .
  qed
qed

text \<open>With amounts in the wei range and a threshold in place, no probe ends the scan:
  all of them run.\<close>

lemma probe_step_total:
  assumes "valid_wei amount_in" and "MIN_PROFIT_THRESHOLD gl = Some t"
  shows "\<exists>st'. probe_step gl net p amount_in b st = (Inr b, st')"
proof -
  from simulate_arbitrage_total [OF assms(1)] obtain x where
    "simulate_arbitrage net p amount_in = Inr x" by (cases "simulate_arbitrage net p amount_in") auto
  then obtain r evs where s: "simulate_arbitrage net p amount_in = Inr (r, evs)" by (cases x) auto
  from never_selectable [OF s] have nq: "\<not> qualifies t (p, amount_in, r)" .
  obtain pr gr nt g where r: "r = (pr, gr, nt, g)" by (cases r) auto
  with nq have "select_step (Some t) b p amount_in r = Inr b"
    by (auto simp: select_step_def qualifies_def)
  with s assms from_wei_valid [OF assms(1), of ETHER] show ?thesis
    by (auto simp: probe_step_def Let_def)
qed

lemma scan_amounts_total:
  assumes "\<forall>a\<in>set amounts. valid_wei a" and "MIN_PROFIT_THRESHOLD gl = Some t"
  shows "\<exists>st'. scan_amounts gl nets p amounts b k st = (Inr (b, k + length amounts), st')"
  using assms(1)
proof (induction amounts arbitrary: k st)
  case Nil
  then show ?case by simp
next
  case (Cons a amounts)
  from Cons.prems have "valid_wei a" by simp
  from probe_step_total [OF this assms(2)] obtain st1 where
    "probe_step gl (nets k) p a b st = (Inr b, st1)" by blast
  moreover from Cons.prems have "\<forall>a\<in>set amounts. valid_wei a" by simp
  from Cons.IH [OF this, of "Suc k" st1] obtain st' where
    "scan_amounts gl nets p amounts b (Suc k) st1 = (Inr (b, Suc k + length amounts), st')" by blast
  ultimately show ?case by simp
qed

lemma scan_pairs_total:
  assumes "\<forall>a\<in>set (LOAN_AMOUNTS gl). valid_wei a" and "MIN_PROFIT_THRESHOLD gl = Some t"
  shows "\<exists>st'. scan_pairs gl nets ps b k st =
           (Inr (b, k + length ps * length (LOAN_AMOUNTS gl)), st')"
proof (induction ps arbitrary: k st)
  case Nil
  then show ?case by simp
next
  case (Cons p ps)
  from scan_amounts_total [OF assms, of nets p b k st] obtain st1 where
    "scan_amounts gl nets p (LOAN_AMOUNTS gl) b k st = (Inr (b, k + length (LOAN_AMOUNTS gl)), st1)"
    by blast
  moreover from Cons.IH [of "k + length (LOAN_AMOUNTS gl)" st1] obtain st' where
    "scan_pairs gl nets ps b (k + length (LOAN_AMOUNTS gl)) st1 =
       (Inr (b, k + length (LOAN_AMOUNTS gl) + length ps * length (LOAN_AMOUNTS gl)), st')"
    by blast
  ultimately show ?case by (simp add: add.assoc)
qed

lemma execute_arbitrage_never_submits:
  assumes "execute_arbitrage gl net st = (r, st')"
  shows "r \<noteq> Inr True \<and> quiet st st'"
proof -
  obtain r1 st1 where s: "scan_pairs gl (probe_nets net) (PAIRS gl) initial_locals 0 st = (r1, st1)"
    by (cases "scan_pairs gl (probe_nets net) (PAIRS gl) initial_locals 0 st")
  from s have q: "quiet st st1" by (rule scan_pairs_quiet)
  show ?thesis
  proof (cases r1)
    case (Inl e)
    with assms s q show ?thesis by (auto simp: execute_arbitrage_def)
  next
    case (Inr bk)
    obtain b k where bk: "bk = (b, k)" by (cases bk)
    with Inr s have "b = initial_locals" using scan_pairs_keeps_locals by blast
    with bk Inr assms s q show ?thesis
      by (auto simp: execute_arbitrage_def execute_tail_def initial_locals_def)
  qed
qed

lemma main_globals_valid:
  "(\<forall>a\<in>set (LOAN_AMOUNTS main_globals). valid_wei a)
   \<and> MIN_PROFIT_THRESHOLD main_globals = Some 1000000000000"
  by (simp add: main_globals_def module_globals_def valid_wei_def MAX_WEI_def)

lemma execute_arbitrage_main_globals:
  "\<exists>st'. execute_arbitrage main_globals net st = (Inr False, st')"
proof -
  from main_globals_valid scan_pairs_total [of main_globals 1000000000000 "probe_nets net"
      "PAIRS main_globals" initial_locals 0 st]
  obtain st' k where "scan_pairs main_globals (probe_nets net) (PAIRS main_globals) initial_locals 0 st
      = (Inr (initial_locals, k), st')" by auto
  then show ?thesis by (auto simp: execute_arbitrage_def execute_tail_def initial_locals_def)
qed

section \<open>The scan and the selection\<close>

lemma select_all_append:
  "select_all thr (xs @ ys) b = bind_exn (select_all thr xs b) (select_all thr ys)"
  by (induction xs arbitrary: b) (auto simp: bind_exn_def split: sum.splits)

lemma probe_step_result:
  assumes "probe_step gl net p amount_in b st = (Inr b', st')"
  shows "\<exists>r evs. simulate_arbitrage net p amount_in = Inr (r, evs)
           \<and> select_step (MIN_PROFIT_THRESHOLD gl) b p amount_in r = Inr b'"
  using assms by (auto simp: probe_step_def Let_def split: sum.splits prod.splits)

lemma scan_amounts_select:
  "scan_amounts gl nets p amounts b k st = (Inr (b', k'), st') \<Longrightarrow>
   select_all (MIN_PROFIT_THRESHOLD gl) (amount_results nets p amounts k) b = Inr b'
   \<and> k' = k + length amounts"
proof (induction amounts arbitrary: b k st)
  case Nil
  then show ?case by simp
next
  case (Cons a amounts)
  obtain r1 st1 where s: "probe_step gl (nets k) p a b st = (r1, st1)"
    by (cases "probe_step gl (nets k) p a b st")
  show ?case
  proof (cases r1)
    case (Inl e)
    with Cons.prems s show ?thesis by simp
  next
    case (Inr b1)
    with s probe_step_result obtain r evs where
      r: "simulate_arbitrage (nets k) p a = Inr (r, evs)"
      "select_step (MIN_PROFIT_THRESHOLD gl) b p a r = Inr b1"
      by blast
    from Inr Cons.prems s have "scan_amounts gl nets p amounts b1 (Suc k) st1 = (Inr (b', k'), st')"
      by simp
    from Cons.IH [OF this] r show ?thesis by (simp add: bind_exn_def)
  qed
qed

lemma scan_pairs_select:
  "scan_pairs gl nets ps b k st = (Inr (b', k'), st') \<Longrightarrow>
   select_all (MIN_PROFIT_THRESHOLD gl) (pair_results gl nets ps k) b = Inr b'"
proof (induction ps arbitrary: b k st)
  case Nil
  then show ?case by simp
next
  case (Cons p ps)
  obtain r1 st1 where s: "scan_amounts gl nets p (LOAN_AMOUNTS gl) b k st = (r1, st1)"
    by (cases "scan_amounts gl nets p (LOAN_AMOUNTS gl) b k st")
  show ?case
  proof (cases r1)
    case (Inl e)
    with Cons.prems s show ?thesis by simp
  next
    case (Inr bk)
    obtain b1 k1 where bk: "bk = (b1, k1)" by (cases bk)
    from scan_amounts_select [OF s [unfolded Inr bk]]
    have a: "select_all (MIN_PROFIT_THRESHOLD gl) (amount_results nets p (LOAN_AMOUNTS gl) k) b = Inr b1"
      and k1: "k1 = k + length (LOAN_AMOUNTS gl)" by auto
    from bk Inr Cons.prems s have "scan_pairs gl nets ps b1 k1 st1 = (Inr (b', k'), st')" by simp
    from Cons.IH [OF this] a k1 show ?thesis by (simp add: select_all_append bind_exn_def)
  qed
qed

text \<open>
  Claim C1. With a threshold in place, the selection over any list of probe results
  never raises and ends with the locals of the result that the specification selects:
  a qualifying result (flagged profitable, gross profit at least the threshold, net
  profit positive) that no qualifying result exceeds in net profit and that every
  earlier qualifying result is strictly below, so the first seen wins a tie. When no
  result qualifies the locals are the initial ones and the rest of the cycle returns
  \<^verbatim>\<open>False\<close> with the state untouched. The locals with which a scan ends are this
  selection over the results of its probes, pairs in the outer loop and amounts in the
  inner one.
\<close>

theorem selection_takes_first_greatest:
  "select_all (Some t) rs initial_locals = Inr (locals_of (spec_select t rs))
   \<and> (spec_select t rs = None \<longleftrightarrow> (\<forall>x\<in>set rs. \<not> qualifies t x))
   \<and> (\<forall>x. spec_select t rs = Some x \<longrightarrow>
        (\<exists>i<length rs. rs ! i = x \<and> qualifies t x
          \<and> (\<forall>j<length rs. qualifies t (rs ! j) \<longrightarrow>
                num_key (net_of (rs ! j)) \<le> num_key (net_of x))
          \<and> (\<forall>j<i. qualifies t (rs ! j) \<longrightarrow>
                num_key (net_of (rs ! j)) < num_key (net_of x))))
   \<and> (spec_select t rs = None \<longrightarrow>
        execute_tail gl net (locals_of (spec_select t rs)) st = (Inr False, st))
   \<and> (MIN_PROFIT_THRESHOLD gl = Some t
        \<and> scan_pairs gl nets (PAIRS gl) initial_locals 0 st = (Inr (b, k), st') \<longrightarrow>
        b = locals_of (spec_select t (pair_results gl nets (PAIRS gl) 0)))"
proof -
  have "MIN_PROFIT_THRESHOLD gl = Some t
        \<and> scan_pairs gl nets (PAIRS gl) initial_locals 0 st = (Inr (b, k), st') \<longrightarrow>
        b = locals_of (spec_select t (pair_results gl nets (PAIRS gl) 0))"
    using scan_pairs_select [of gl nets "PAIRS gl" initial_locals 0 st b k st']
      select_all_spec [of t "pair_results gl nets (PAIRS gl) 0"]
    by auto
  then show ?thesis
    using select_all_spec [of t rs] spec_select_None [of t rs] spec_select_first [of t rs]
    by (auto simp: execute_tail_def locals_of_def initial_locals_def)
qed

lemma spec_select_example: "spec_select 1000000000000 example_results = Some (example_results ! 2)"
  by (simp add: spec_select_def first_max_def example_results_def qualifies_def net_of_def py_gt_def)

theorem selection_takes_first_greatest_witness:
  "select_all (Some 1000000000000) example_results initial_locals =
     Inr \<lparr>best_pair = Some pair_usdc, best_amount = Some 1000000000000000000,
          best_profit = 5000000000000000, best_net_profit = PFloat (1 / 500),
          best_profitable = True, best_gas_cost = PFloat (1 / 1000)\<rparr>
   \<and> spec_select 1000000000000 example_results = Some (example_results ! 2)
   \<and> select_all (Some 1000000000000) [example_results ! 1] initial_locals = Inr initial_locals
   \<and> execute_tail capped_globals net_ok initial_locals initial_state = (Inr False, initial_state)
   \<and> MIN_PROFIT_THRESHOLD main_globals = Some 1000000000000
   \<and> (\<exists>st'. scan_pairs main_globals (probe_nets net_ok) (PAIRS main_globals) initial_locals 0
               initial_state = (Inr (initial_locals, 4), st'))
   \<and> initial_locals =
       locals_of (spec_select 1000000000000
         (pair_results main_globals (probe_nets net_ok) (PAIRS main_globals) 0))"
proof -
  note a = selection_takes_first_greatest
    [where t = 1000000000000 and rs = example_results and gl = capped_globals and net = net_ok
       and st = initial_state]
  note b = selection_takes_first_greatest
    [where t = 1000000000000 and rs = "[example_results ! 1]" and gl = capped_globals
       and net = net_ok and st = initial_state]
  from a spec_select_example
  have 1: "select_all (Some 1000000000000) example_results initial_locals =
     Inr \<lparr>best_pair = Some pair_usdc, best_amount = Some 1000000000000000000,
          best_profit = 5000000000000000, best_net_profit = PFloat (1 / 500),
          best_profitable = True, best_gas_cost = PFloat (1 / 1000)\<rparr>"
    by (simp add: locals_of_def example_results_def)
  have n: "spec_select 1000000000000 [example_results ! 1] = None"
    by (simp add: spec_select_def first_max_def example_results_def qualifies_def)
  from b n
  have 2: "select_all (Some 1000000000000) [example_results ! 1] initial_locals = Inr initial_locals"
    and 3: "execute_tail capped_globals net_ok initial_locals initial_state = (Inr False, initial_state)"
    by (simp_all add: locals_of_def)
  from main_globals_valid scan_pairs_total [of main_globals 1000000000000 "probe_nets net_ok"
      "PAIRS main_globals" initial_locals 0 initial_state]
  obtain st' where s: "scan_pairs main_globals (probe_nets net_ok) (PAIRS main_globals)
      initial_locals 0 initial_state = (Inr (initial_locals, 4), st')"
    by (auto simp: main_globals_def module_globals_def)
  from selection_takes_first_greatest
    [where t = 1000000000000 and gl = main_globals and nets = "probe_nets net_ok"
       and st = initial_state and b = initial_locals and k = 4 and st' = st'] s main_globals_valid
  have 4: "initial_locals =
       locals_of (spec_select 1000000000000
         (pair_results main_globals (probe_nets net_ok) (PAIRS main_globals) 0))"
    by simp
  from 1 2 3 4 s spec_select_example main_globals_valid show ?thesis by blast
qed

section \<open>The early returns of the cycle\<close>

lemma build_tx_fees:
  "build_tx net b max_fee priority_fee n = Inr t \<Longrightarrow>
   maxFeePerGas t = max_fee \<and> maxPriorityFeePerGas t = priority_fee \<and> tx_nonce t = n"
  by (auto simp: build_tx_def bind_exn_def split: sum.splits option.splits)

text \<open>
  Claim C8. When no candidate qualified, and when the gas check rejects a selected
  opportunity, the rest of the cycle returns \<^verbatim>\<open>False\<close> with the state exactly as it
  was: nothing is built, signed or broadcast and the held nonce is untouched. For the
  whole cycle, from its start: the scan that precedes leaves the nonce alone and adds
  no event of a submission to the trace.
\<close>

theorem guard_reject_frame:
  "(\<not> best_profitable b \<longrightarrow> execute_tail gl net b st = (Inr False, st))
   \<and> (best_profitable b \<and> gas_policy_guard gl net = Inr Rejected \<longrightarrow>
        execute_tail gl net b st = (Inr False, st))
   \<and> (scan_pairs gl (probe_nets net) (PAIRS gl) initial_locals 0 st = (Inr (b, k), st')
        \<and> (\<not> best_profitable b \<or> gas_policy_guard gl net = Inr Rejected) \<longrightarrow>
        execute_arbitrage gl net st = (Inr False, st') \<and> quiet st st')"
  using scan_pairs_quiet [of gl "probe_nets net" "PAIRS gl" initial_locals 0 st "Inr (b, k)" st']
  by (auto simp: execute_tail_def execute_arbitrage_def)

lemma gas_policy_guard_high_fee: "gas_policy_guard capped_globals net_high_fee = Inr Rejected"
  by (simp add: gas_policy_guard_def bind_exn_def from_wei_def MAX_WEI_def capped_globals_def
      main_globals_def module_globals_def net_high_fee_def net_ok_def Let_def)

theorem guard_reject_frame_witness:
  "best_profitable example_best
   \<and> gas_policy_guard capped_globals net_high_fee = Inr Rejected
   \<and> execute_tail capped_globals net_high_fee example_best held_state = (Inr False, held_state)
   \<and> \<not> best_profitable initial_locals
   \<and> execute_tail capped_globals net_ok initial_locals held_state = (Inr False, held_state)
   \<and> (\<exists>st'. scan_pairs main_globals (probe_nets net_ok) (PAIRS main_globals) initial_locals 0 held_state
               = (Inr (initial_locals, 4), st')
            \<and> execute_arbitrage main_globals net_ok held_state = (Inr False, st')
            \<and> last_nonce st' = Some 5)"
proof -
  have b: "best_profitable example_best" "\<not> best_profitable initial_locals"
    by (simp_all add: example_best_def locals_of_def example_results_def initial_locals_def)
  note th = guard_reject_frame [of example_best capped_globals net_high_fee held_state 0 held_state]
  from th b gas_policy_guard_high_fee
  have 1: "execute_tail capped_globals net_high_fee example_best held_state = (Inr False, held_state)"
    by simp
  from guard_reject_frame [of initial_locals capped_globals net_ok held_state 0 held_state] b
  have 2: "execute_tail capped_globals net_ok initial_locals held_state = (Inr False, held_state)"
    by simp
  from main_globals_valid scan_pairs_total [of main_globals 1000000000000 "probe_nets net_ok"
      "PAIRS main_globals" initial_locals 0 held_state]
  obtain st' where s: "scan_pairs main_globals (probe_nets net_ok) (PAIRS main_globals)
      initial_locals 0 held_state = (Inr (initial_locals, 4), st')"
    by (auto simp: main_globals_def module_globals_def)
  from guard_reject_frame [of initial_locals main_globals net_ok held_state 4 st'] s b
  have "execute_arbitrage main_globals net_ok held_state = (Inr False, st') \<and> quiet held_state st'"
    by simp
  with s have 3: "\<exists>st'. scan_pairs main_globals (probe_nets net_ok) (PAIRS main_globals)
        initial_locals 0 held_state = (Inr (initial_locals, 4), st')
      \<and> execute_arbitrage main_globals net_ok held_state = (Inr False, st')
      \<and> last_nonce st' = Some 5"
    by (auto simp: quiet_def held_state_def)
  from b gas_policy_guard_high_fee 1 2 3 show ?thesis by simp
qed

section \<open>The nonce\<close>

lemma sign_and_send_nonce:
  "sign_and_send net t st = (r, st') \<Longrightarrow> last_nonce st' = last_nonce st"
  by (auto simp: sign_and_send_def split: sum.splits)

lemma sign_and_send_trace:
  "sign_and_send net t st = (r, st') \<Longrightarrow>
   \<exists>evs. trace st' = trace st @ evs \<and> (\<forall>reason. AlertTxFailed reason \<notin> set evs)"
  by (auto simp: sign_and_send_def split: sum.splits)

lemma acquire_nonce_trace:
  "acquire_nonce net st = (r, st') \<Longrightarrow> trace st' = trace st"
  by (auto simp: acquire_nonce_def split: sum.splits option.splits)

lemma acquire_nonce_held:
  "last_nonce st = Some n \<Longrightarrow>
   acquire_nonce net st = (Inr (n + 1), st\<lparr>last_nonce := Some (n + 1)\<rparr>)"
  by (simp add: acquire_nonce_def)

lemma await_receipt_cases:
  assumes "await_receipt net h st = (r, st')" and "last_nonce st = Some n"
  shows "(r = Inr True \<and> last_nonce st' = Some n \<and> trace st' = trace st @ [AlertSuccess h])
       \<or> (r = Inr False \<and> last_nonce st' = Some (n - 1)
            \<and> trace st' = trace st @ [AlertTxFailed (tx_revert_reason net)])
       \<or> ((\<exists>e. r = Inl e) \<and> st' = st)"
  using assms by (auto simp: await_receipt_def emit_def split: sum.splits if_splits)

text \<open>The three ways in which the body of the \<^verbatim>\<open>try\<close> ends, from a held nonce.\<close>

lemma submit_body_cases:
  assumes "submit_body net b max_fee priority_fee st = (r, st')" and "last_nonce st = Some n"
  shows "(r = Inr True \<and> last_nonce st' = Some (n + 1)
            \<and> (\<forall>reason. AlertTxFailed reason \<notin> set (drop (length (trace st)) (trace st'))))
       \<or> (r = Inr False \<and> last_nonce st' = Some n)
       \<or> ((\<exists>e. r = Inl e) \<and> last_nonce st' = Some (n + 1)
            \<and> (\<forall>reason. AlertTxFailed reason \<notin> set (drop (length (trace st)) (trace st'))))"
proof -
  let ?st1 = "st\<lparr>last_nonce := Some (n + 1)\<rparr>"
  from assms(2) have a: "acquire_nonce net st = (Inr (n + 1), ?st1)" by (rule acquire_nonce_held)
  show ?thesis
  proof (cases "build_tx net b max_fee priority_fee (n + 1)")
    case (Inl e)
    with assms(1) a show ?thesis by (auto simp: submit_body_def)
  next
    case t: (Inr t)
    show ?thesis
    proof (cases "gas_limit net")
      case (Inl e)
      with assms(1) a t show ?thesis by (auto simp: submit_body_def)
    next
      case g: (Inr g)
      obtain r2 st2 where s: "sign_and_send net (t\<lparr>gas := Some g\<rparr>) (emit [TxBuilt t] ?st1) = (r2, st2)"
        by (cases "sign_and_send net (t\<lparr>gas := Some g\<rparr>) (emit [TxBuilt t] ?st1)")
      from sign_and_send_nonce [OF s] have n2: "last_nonce st2 = Some (n + 1)" by simp
      from sign_and_send_trace [OF s] obtain evs where
        evs: "trace st2 = trace st @ TxBuilt t # evs" "\<forall>reason. AlertTxFailed reason \<notin> set evs"
        by auto
      show ?thesis
      proof (cases r2)
        case (Inl e)
        with assms(1) a t g s n2 evs show ?thesis by (auto simp: submit_body_def)
      next
        case (Inr h)
        with assms(1) a t g s have "await_receipt net h st2 = (r, st')" by (simp add: submit_body_def)
        from await_receipt_cases [OF this n2] evs n2 show ?thesis by auto
      qed
    qed
  qed
qed

lemma submit_reverted:
  assumes "last_nonce st = Some n"
    and "build_tx net b mf pf (n + 1) = Inr t"
    and "gas_limit net = Inr g"
    and "sign_transaction net = Inr ()"
    and "send_raw_transaction net = Inr h"
    and "receipt_status net = Inr status"
    and "status \<noteq> 1"
  shows "fst (submit net b mf pf st) = Inr False
       \<and> last_nonce (snd (submit net b mf pf st)) = Some n
       \<and> trace (snd (submit net b mf pf st)) =
           trace st @ [TxBuilt t, TxSigned (t\<lparr>gas := Some g\<rparr>), TxBroadcast (t\<lparr>gas := Some g\<rparr>) h,
                       AlertTxSent h, AlertTxFailed (tx_revert_reason net)]"
  using assms
  by (simp add: submit_def submit_body_def acquire_nonce_def sign_and_send_def await_receipt_def
      emit_def)

lemma submit_alert_reverted:
  assumes "last_nonce st = Some preAttempt"
    and "submit net b max_fee priority_fee st = (r, st')"
    and "AlertTxFailed reason \<in> set (drop (length (trace st)) (trace st'))"
  shows "r = Inr False \<and> last_nonce st' = Some preAttempt"
proof -
  obtain r1 st1 where s: "submit_body net b max_fee priority_fee st = (r1, st1)"
    by (cases "submit_body net b max_fee priority_fee st")
  from submit_body_cases [OF s assms(1)] show ?thesis
  proof (elim disjE conjE exE)
    assume "r1 = Inr True" "\<forall>reason. AlertTxFailed reason \<notin> set (drop (length (trace st)) (trace st1))"
    with s assms(2,3) show ?thesis by (auto simp: submit_def)
  next
    assume "r1 = Inr False" "last_nonce st1 = Some preAttempt"
    with s assms(2) show ?thesis by (auto simp: submit_def)
  next
    fix e
    assume e: "r1 = Inl e" "\<forall>reason. AlertTxFailed reason \<notin> set (drop (length (trace st)) (trace st1))"
    have "length (trace st) \<le> length (trace st1)"
    proof (rule ccontr)
      assume "\<not> length (trace st) \<le> length (trace st1)"
      with assms(2,3) s e show False
        by (auto simp: submit_def split: sum.splits)
    qed
    with s assms(2,3) e show ?thesis
      by (auto simp: submit_def split: sum.splits)
  qed
qed

text \<open>
  Claim C5. A submission attempt that starts with the held nonce \<open>preAttempt\<close> and gets
  as far as a receipt whose status is not 1 (the transaction was built, signed and
  broadcast, and the receipt arrived) returns \<^verbatim>\<open>False\<close>, reports the failure, and ends
  with the held nonce \<open>preAttempt\<close>: the decrement of line 307 cancels the increment of
  line 273. Conversely, an attempt that sends the failure report of line 306 has
  returned \<^verbatim>\<open>False\<close> with the held nonce \<open>preAttempt\<close>.
\<close>

theorem reverted_restores_nonce:
  assumes "last_nonce st = Some preAttempt"
  shows "(build_tx net b max_fee priority_fee (preAttempt + 1) = Inr t
          \<and> gas_limit net = Inr g
          \<and> sign_transaction net = Inr ()
          \<and> send_raw_transaction net = Inr h
          \<and> receipt_status net = Inr status
          \<and> status \<noteq> 1 \<longrightarrow>
            fst (submit net b max_fee priority_fee st) = Inr False
            \<and> last_nonce (snd (submit net b max_fee priority_fee st)) = Some preAttempt
            \<and> trace (snd (submit net b max_fee priority_fee st)) =
                trace st @ [TxBuilt t, TxSigned (t\<lparr>gas := Some g\<rparr>),
                            TxBroadcast (t\<lparr>gas := Some g\<rparr>) h, AlertTxSent h,
                            AlertTxFailed (tx_revert_reason net)])
       \<and> (submit net b max_fee priority_fee st = (r, st')
          \<and> AlertTxFailed reason \<in> set (drop (length (trace st)) (trace st')) \<longrightarrow>
            r = Inr False \<and> last_nonce st' = Some preAttempt)"
  using submit_reverted [OF assms, of net b max_fee priority_fee t g h status]
    submit_alert_reverted [OF assms, of net b max_fee priority_fee r st' reason]
  by blast

lemma gas_limit_example: "estimate_gas net = Inr 250000 \<Longrightarrow> gas_limit net = Inr 300000"
  using gas_buffered_example by (simp add: gas_limit_def bind_exn_def int_of_float_def)

lemma build_tx_example:
  "build_tx net_ok example_best 82000000000 2000000000 n = Inr (example_tx n)"
  "build_tx net_reverted example_best 82000000000 2000000000 n = Inr (example_tx n)"
  "build_tx net_build_fails example_best 82000000000 2000000000 n = Inl (RpcError ''connection closed'')"
  by (simp_all add: build_tx_def bind_exn_def net_ok_def net_reverted_def net_build_fails_def
      example_best_def locals_of_def example_results_def example_tx_def DEADLINE_DELTA_def)

lemma submit_body_example:
  assumes "acquire_nonce net_ok st = (Inr n, st1)"
  shows "submit_body net_ok example_best 82000000000 2000000000 st =
           (Inr True, emit [TxBuilt (example_tx n), TxSigned (example_tx_gas n),
                            TxBroadcast (example_tx_gas n) 1, AlertTxSent 1, AlertSuccess 1] st1)"
proof -
  have "gas_limit net_ok = Inr 300000" by (rule gas_limit_example) (simp add: net_ok_def)
  with assms build_tx_example(1) [of n] show ?thesis
    by (simp add: submit_body_def sign_and_send_def await_receipt_def emit_def
        example_tx_gas_def net_ok_def)
qed

lemma submit_example:
  assumes "acquire_nonce net_ok st = (Inr n, st1)"
  shows "submit net_ok example_best 82000000000 2000000000 st =
           (Inr True, emit [TxBuilt (example_tx n), TxSigned (example_tx_gas n),
                            TxBroadcast (example_tx_gas n) 1, AlertTxSent 1, AlertSuccess 1] st1)"
  using submit_body_example [OF assms] by (simp add: submit_def)

lemma submit_reverted_example:
  "submit net_reverted example_best 82000000000 2000000000 held_state =
     (Inr False,
      \<lparr>last_nonce = Some 5,
       trace = [TxBuilt (example_tx 6), TxSigned (example_tx_gas 6),
                TxBroadcast (example_tx_gas 6) 1, AlertTxSent 1,
                AlertTxFailed ''execution reverted'']\<rparr>)"
proof -
  have "gas_limit net_reverted = Inr 300000"
    by (rule gas_limit_example) (simp add: net_reverted_def net_ok_def)
  with build_tx_example(2) [of 6] show ?thesis
    by (simp add: submit_def submit_body_def acquire_nonce_def sign_and_send_def
        await_receipt_def emit_def example_tx_gas_def net_reverted_def net_ok_def held_state_def)
qed

theorem reverted_restores_nonce_witness:
  "last_nonce held_state = Some 5
   \<and> build_tx net_reverted example_best 82000000000 2000000000 (5 + 1) = Inr (example_tx 6)
   \<and> gas_limit net_reverted = Inr 300000
   \<and> sign_transaction net_reverted = Inr ()
   \<and> send_raw_transaction net_reverted = Inr 1
   \<and> receipt_status net_reverted = Inr 0
   \<and> submit net_reverted example_best 82000000000 2000000000 held_state =
       (Inr False,
        \<lparr>last_nonce = Some 5,
         trace = [TxBuilt (example_tx 6), TxSigned (example_tx_gas 6),
                  TxBroadcast (example_tx_gas 6) 1, AlertTxSent 1,
                  AlertTxFailed ''execution reverted'']\<rparr>)
   \<and> last_nonce (snd (submit net_reverted example_best 82000000000 2000000000 held_state)) = Some 5"
proof -
  have h: "last_nonce held_state = Some 5" by (simp add: held_state_def)
  have g: "gas_limit net_reverted = Inr 300000"
    by (rule gas_limit_example) (simp add: net_reverted_def net_ok_def)
  have n: "sign_transaction net_reverted = Inr ()" "send_raw_transaction net_reverted = Inr 1"
    "receipt_status net_reverted = Inr 0" "(0::int) \<noteq> 1"
    by (simp_all add: net_reverted_def net_ok_def)
  let ?st' = "\<lparr>last_nonce = Some 5,
         trace = [TxBuilt (example_tx 6), TxSigned (example_tx_gas 6),
                  TxBroadcast (example_tx_gas 6) 1, AlertTxSent 1,
                  AlertTxFailed ''execution reverted'']\<rparr>"
  have t: "AlertTxFailed ''execution reverted'' \<in> set (drop (length (trace held_state)) (trace ?st'))"
    by (simp add: held_state_def)
  note th = reverted_restores_nonce
    [OF h, where net = net_reverted and b = example_best and max_fee = 82000000000
       and priority_fee = 2000000000 and t = "example_tx 6" and g = 300000 and h = 1
       and status = 0 and r = "Inr False" and st' = ?st' and reason = "''execution reverted''"]
  from th build_tx_example(2) [of 6] g n
  have 1: "last_nonce (snd (submit net_reverted example_best 82000000000 2000000000 held_state)) = Some 5"
    by simp
  from th submit_reverted_example t
  have 2: "last_nonce ?st' = Some 5" by blast
  from h build_tx_example(2) [of 6] g n submit_reverted_example 1 show ?thesis by simp
qed

subsection \<open>Runs of successful submissions\<close>

lemma submit_body_True:
  assumes "submit_body net b mf pf st = (Inr True, st')"
  shows "\<exists>n. acquire_nonce net st = (Inr n, st\<lparr>last_nonce := Some n\<rparr>) \<and> last_nonce st' = Some n"
  using assms
  apply (auto simp: submit_body_def await_receipt_def
      split: sum.splits prod.splits if_splits option.splits)
  apply (auto simp: acquire_nonce_def split: sum.splits option.splits dest!: sign_and_send_nonce)
  done

lemma submit_True_body:
  "submit net b mf pf st = (Inr True, st') \<Longrightarrow> submit_body net b mf pf st = (Inr True, st')"
  by (auto simp: submit_def split: sum.splits prod.splits)

lemma submit_all_held:
  "last_nonce st = Some n \<Longrightarrow> submit_all as st = (rs, st') \<Longrightarrow> \<forall>r\<in>set rs. r = Inr True \<Longrightarrow>
   last_nonce st' = Some (n + int (length as))"
proof (induction as arbitrary: st n rs st')
  case Nil
  then show ?case by simp
next
  case (Cons a as)
  obtain r st1 where s1: "submit (a_net a) (a_locals a) (a_max_fee a) (a_priority_fee a) st = (r, st1)"
    by (cases "submit (a_net a) (a_locals a) (a_max_fee a) (a_priority_fee a) st")
  obtain rs1 st2 where s2: "submit_all as st1 = (rs1, st2)"
    by (cases "submit_all as st1")
  from Cons.prems(2) s1 s2 have rs: "rs = r # rs1" and st': "st' = st2" by auto
  with Cons.prems(3) have r: "r = Inr True" and rs1: "\<forall>r\<in>set rs1. r = Inr True" by auto
  from submit_body_True [OF submit_True_body [OF s1 [unfolded r]]] Cons.prems(1)
  have "last_nonce st1 = Some (n + 1)" by (auto simp: acquire_nonce_def)
  from Cons.IH [OF this s2 [folded st'] rs1] show ?case by simp
qed

text \<open>
  Claim C6, as amended. Starting with no held nonce, after \<open>N \<ge> 1\<close> submissions in a row
  that all return \<^verbatim>\<open>True\<close>, the held nonce is \<open>initial + N - 1\<close>, where \<open>initial\<close> is the
  pending transaction count fetched at the first acquisition: the first transaction is
  sent with the nonce \<open>initial\<close> itself and each later one adds one.
\<close>

theorem nonce_after_successes:
  assumes "last_nonce st = None"
    and "as \<noteq> []"
    and "submit_all as st = (rs, st')"
    and "\<forall>r\<in>set rs. r = Inr True"
  shows "\<exists>initial. pending_count (a_net (hd as)) = Inr initial \<and>
           last_nonce st' = Some (int initial + int (length as) - 1)"
proof -
  from assms(2) obtain a as' where as: "as = a # as'" by (cases as) auto
  obtain r st1 where s1: "submit (a_net a) (a_locals a) (a_max_fee a) (a_priority_fee a) st = (r, st1)"
    by (cases "submit (a_net a) (a_locals a) (a_max_fee a) (a_priority_fee a) st")
  obtain rs1 st2 where s2: "submit_all as' st1 = (rs1, st2)"
    by (cases "submit_all as' st1")
  from assms(3) as s1 s2 have rs: "rs = r # rs1" and st': "st' = st2" by auto
  with assms(4) have r: "r = Inr True" and rs1: "\<forall>r\<in>set rs1. r = Inr True" by auto
  from submit_body_True [OF submit_True_body [OF s1 [unfolded r]]] assms(1)
  obtain c where c: "pending_count (a_net a) = Inr c" "last_nonce st1 = Some (int c)"
    by (auto simp: acquire_nonce_def split: sum.splits)
  from submit_all_held [OF c(2) s2 [folded st'] rs1] as c(1) show ?thesis by simp
qed

lemma submit_all_two_example:
  "submit_all [example_attempt net_ok, example_attempt net_ok] initial_state =
     ([Inr True, Inr True],
      \<lparr>last_nonce = Some 6,
       trace = [TxBuilt (example_tx 5), TxSigned (example_tx_gas 5),
                TxBroadcast (example_tx_gas 5) 1, AlertTxSent 1, AlertSuccess 1,
                TxBuilt (example_tx 6), TxSigned (example_tx_gas 6),
                TxBroadcast (example_tx_gas 6) 1, AlertTxSent 1, AlertSuccess 1]\<rparr>)"
proof -
  have 1: "acquire_nonce net_ok initial_state = (Inr 5, \<lparr>last_nonce = Some 5, trace = []\<rparr>)"
    by (simp add: acquire_nonce_def initial_state_def net_ok_def)
  let ?st1 = "emit [TxBuilt (example_tx 5), TxSigned (example_tx_gas 5),
                TxBroadcast (example_tx_gas 5) 1, AlertTxSent 1, AlertSuccess 1]
                \<lparr>last_nonce = Some 5, trace = []\<rparr>"
  have 2: "acquire_nonce net_ok ?st1 = (Inr 6, ?st1\<lparr>last_nonce := Some 6\<rparr>)"
    by (simp add: acquire_nonce_def emit_def)
  from submit_example [OF 1] submit_example [OF 2] show ?thesis
    by (simp add: example_attempt_def emit_def)
qed

theorem nonce_after_successes_witness:
  "last_nonce initial_state = None
   \<and> submit_all [example_attempt net_ok, example_attempt net_ok] initial_state =
       ([Inr True, Inr True],
        \<lparr>last_nonce = Some 6,
         trace = [TxBuilt (example_tx 5), TxSigned (example_tx_gas 5),
                  TxBroadcast (example_tx_gas 5) 1, AlertTxSent 1, AlertSuccess 1,
                  TxBuilt (example_tx 6), TxSigned (example_tx_gas 6),
                  TxBroadcast (example_tx_gas 6) 1, AlertTxSent 1, AlertSuccess 1]\<rparr>)
   \<and> pending_count net_ok = Inr 5"
proof -
  have h: "last_nonce initial_state = None" by (simp add: initial_state_def)
  have ne: "[example_attempt net_ok, example_attempt net_ok] \<noteq> []" by simp
  have al: "\<forall>r\<in>set [Inr True, Inr True :: exn + bool]. r = Inr True" by simp
  from nonce_after_successes [OF h ne submit_all_two_example al] h submit_all_two_example
  show ?thesis by (simp add: example_attempt_def)
qed

text \<open>
  Claim C6 as stated fails for \<open>N = 1\<close>: after one successful submission from a
  pending count of 5 the held nonce is 5, the nonce of the transaction sent, not 6.
\<close>

theorem nonce_after_one_success_counterexample:
  "last_nonce initial_state = None
   \<and> pending_count net_ok = Inr 5
   \<and> submit net_ok example_best 82000000000 2000000000 initial_state =
       (Inr True,
        \<lparr>last_nonce = Some 5,
         trace = [TxBuilt (example_tx 5), TxSigned (example_tx_gas 5),
                  TxBroadcast (example_tx_gas 5) 1, AlertTxSent 1, AlertSuccess 1]\<rparr>)
   \<and> last_nonce (snd (submit net_ok example_best 82000000000 2000000000 initial_state)) \<noteq> Some (5 + 1)"
proof -
  have 1: "acquire_nonce net_ok initial_state = (Inr 5, \<lparr>last_nonce = Some 5, trace = []\<rparr>)"
    by (simp add: acquire_nonce_def initial_state_def net_ok_def)
  from submit_example [OF 1] show ?thesis
    by (simp add: emit_def initial_state_def net_ok_def)
qed

subsection \<open>After an exception\<close>

lemma submit_resyncs:
  assumes "submit_body net b mf pf st = (Inl e, st1)" and "resync_count net = Inr c"
  shows "submit net b mf pf st =
           (Inr False, (emit [AlertExecutionFailed e] st1)\<lparr>last_nonce := Some (int c)\<rparr>)
         \<and> fst (acquire_nonce net' ((emit [AlertExecutionFailed e] st1)\<lparr>last_nonce := Some (int c)\<rparr>))
             = Inr (int c + 1)"
  using assms by (simp add: submit_def acquire_nonce_def)

text \<open>
  Claim C7 at a failing input. The first attempt of a process fetches the pending
  count 5, fails while building the transaction, and the handler stores the newly
  fetched pending count 5. The next acquisition then yields 6, not the fetched 5,
  although nothing was sent with the nonce 5; the first acquisition of a process, by
  contrast, uses the fetched count itself.
\<close>

theorem resync_then_acquire_skips_nonce:
  "pending_count net_build_fails = Inr 5
   \<and> resync_count net_build_fails = Inr 5
   \<and> submit net_build_fails example_best 82000000000 2000000000 initial_state =
       (Inr False,
        \<lparr>last_nonce = Some 5, trace = [AlertExecutionFailed (RpcError ''connection closed'')]\<rparr>)
   \<and> acquire_nonce net_ok
       \<lparr>last_nonce = Some 5, trace = [AlertExecutionFailed (RpcError ''connection closed'')]\<rparr> =
       (Inr 6,
        \<lparr>last_nonce = Some 6, trace = [AlertExecutionFailed (RpcError ''connection closed'')]\<rparr>)
   \<and> acquire_nonce net_ok initial_state = (Inr 5, \<lparr>last_nonce = Some 5, trace = []\<rparr>)"
  using build_tx_example(3) [of 5]
  by (simp add: submit_def submit_body_def acquire_nonce_def emit_def initial_state_def
      net_build_fails_def net_ok_def)

section \<open>The gas check\<close>

lemma submit_body_built:
  assumes "submit_body net b mf pf st = (r, st')"
  shows "\<exists>evs. trace st' = trace st @ evs
           \<and> (\<forall>t. TxBuilt t \<in> set evs \<longrightarrow> maxFeePerGas t = mf \<and> maxPriorityFeePerGas t = pf)"
proof -
  obtain r1 st1 where a: "acquire_nonce net st = (r1, st1)" by (cases "acquire_nonce net st")
  from acquire_nonce_trace [OF a] have t1: "trace st1 = trace st" .
  show ?thesis
  proof (cases r1)
    case (Inl e)
    with assms a t1 show ?thesis by (simp add: submit_body_def)
  next
    case n: (Inr n)
    show ?thesis
    proof (cases "build_tx net b mf pf n")
      case (Inl e)
      with assms a n t1 show ?thesis by (simp add: submit_body_def)
    next
      case t: (Inr t)
      from build_tx_fees [OF t] have f: "maxFeePerGas t = mf" "maxPriorityFeePerGas t = pf" by auto
      show ?thesis
      proof (cases "gas_limit net")
        case (Inl e)
        with assms a n t t1 f show ?thesis by (auto simp: submit_body_def)
      next
        case g: (Inr g)
        obtain r2 st2 where s: "sign_and_send net (t\<lparr>gas := Some g\<rparr>) (emit [TxBuilt t] st1) = (r2, st2)"
          by (cases "sign_and_send net (t\<lparr>gas := Some g\<rparr>) (emit [TxBuilt t] st1)")
        then have t2: "\<exists>evs. trace st2 = trace st @ TxBuilt t # evs \<and> (\<forall>u. TxBuilt u \<notin> set evs)"
          using t1 by (auto simp: sign_and_send_def split: sum.splits)
        show ?thesis
        proof (cases r2)
          case (Inl e)
          with assms a n t g s t2 f show ?thesis by (auto simp: submit_body_def)
        next
          case (Inr h)
          with assms a n t g s have "await_receipt net h st2 = (r, st')" by (simp add: submit_body_def)
          then have "\<exists>evs. trace st' = trace st2 @ evs \<and> (\<forall>u. TxBuilt u \<notin> set evs)"
            by (auto simp: await_receipt_def split: sum.splits if_splits option.splits)
          with t2 f show ?thesis by auto
        qed
      qed
    qed
  qed
qed

lemma submit_built:
  assumes "submit net b mf pf st = (r, st')"
  shows "\<exists>evs. trace st' = trace st @ evs
           \<and> (\<forall>t. TxBuilt t \<in> set evs \<longrightarrow> maxFeePerGas t = mf \<and> maxPriorityFeePerGas t = pf)"
proof -
  obtain r1 st1 where s: "submit_body net b mf pf st = (r1, st1)"
    by (cases "submit_body net b mf pf st")
  from submit_body_built [OF s] assms s show ?thesis
    by (auto simp: submit_def split: sum.splits)
qed

text \<open>
  What the check does once both caps are ints: it computes
  \<open>priority_fee = min priority_cap suggested\<close> and \<open>max_fee = base_fee + priority_fee\<close>;
  when \<open>max_fee\<close> exceeds the cap it leaves the state as it was, and otherwise it goes on
  to the submission, where every transaction built carries exactly these two values.
\<close>

lemma gas_guard_with_caps:
  assumes "BASE_PRIORITY_FEE gl = Some priority_cap"
    and "MAX_GAS_PRICE gl = Some max_fee_cap"
    and "latest_base_fee net = Inr base_fee"
    and "max_priority_fee net = Inr suggested"
    and "best_profitable b"
  shows "execute_tail gl net b st =
           (let priority_fee = min priority_cap (int suggested);
                max_fee = int base_fee + priority_fee
            in if max_fee_cap < max_fee
               then (if valid_wei max_fee then Inr False else Inl ValueError, st)
               else submit net b max_fee priority_fee st)
         \<and> (\<forall>t. TxBuilt t \<in> set (drop (length (trace st)) (trace (snd (execute_tail gl net b st)))) \<longrightarrow>
                \<not> max_fee_cap < int base_fee + min priority_cap (int suggested)
                \<and> maxFeePerGas t = int base_fee + min priority_cap (int suggested)
                \<and> maxPriorityFeePerGas t = min priority_cap (int suggested))"
proof -
  have g: "gas_policy_guard gl net =
          (let priority_fee = min priority_cap (int suggested);
               max_fee = int base_fee + priority_fee
           in if max_fee_cap < max_fee
              then (if valid_wei max_fee then Inr Rejected else Inl ValueError)
              else Inr (Accepted max_fee priority_fee))"
    using assms MAX_WEI_pos
    by (auto simp: gas_policy_guard_def bind_exn_def from_wei_def valid_wei_def Let_def)
  with assms(5) have e: "execute_tail gl net b st =
           (let priority_fee = min priority_cap (int suggested);
                max_fee = int base_fee + priority_fee
            in if max_fee_cap < max_fee
               then (if valid_wei max_fee then Inr False else Inl ValueError, st)
               else submit net b max_fee priority_fee st)"
    by (auto simp: execute_tail_def Let_def)
  let ?pf = "min priority_cap (int suggested)"
  let ?mf = "int base_fee + ?pf"
  obtain r st' where s: "submit net b ?mf ?pf st = (r, st')" by (cases "submit net b ?mf ?pf st")
  from submit_built [OF s] obtain evs where evs: "trace st' = trace st @ evs"
    "\<forall>t. TxBuilt t \<in> set evs \<longrightarrow> maxFeePerGas t = ?mf \<and> maxPriorityFeePerGas t = ?pf" by blast
  show ?thesis
  proof (cases "max_fee_cap < ?mf")
    case True
    with e show ?thesis by (simp add: Let_def)
  next
    case False
    with e s evs show ?thesis by (simp add: Let_def)
  qed
qed

lemma gas_policy_guard_unset:
  "gas_policy_guard main_globals net =
     (case latest_base_fee net of
        Inl e \<Rightarrow> Inl e
      | Inr base_fee \<Rightarrow> (case max_priority_fee net of Inl e \<Rightarrow> Inl e | Inr suggested \<Rightarrow> Inl TypeError))"
  by (simp add: gas_policy_guard_def bind_exn_def main_globals_def module_globals_def
      split: sum.splits)

text \<open>
  Claim C4 at a failing input: the program as \<^verbatim>\<open>main\<close> configures it, an opportunity
  selected, base fee 80 gwei and suggested priority fee 5 gwei. \<^verbatim>\<open>main\<close> assigns the caps
  of 100 gwei and 2 gwei to names that it does not declare \<^verbatim>\<open>global\<close>, so the module's
  \<^verbatim>\<open>BASE_PRIORITY_FEE\<close> and \<^verbatim>\<open>MAX_GAS_PRICE\<close> are still \<^verbatim>\<open>None\<close> and
  \<^verbatim>\<open>min(BASE_PRIORITY_FEE, ...)\<close> raises \<^verbatim>\<open>TypeError\<close>: the check neither rejects nor
  goes on. With the two caps in place the same input is accepted and the transaction
  is built with a maximal fee of 82 gwei and a priority fee of 2 gwei.
\<close>

theorem gas_guard_caps_unset:
  "BASE_PRIORITY_FEE main_globals = None
   \<and> MAX_GAS_PRICE main_globals = None
   \<and> best_profitable example_best
   \<and> latest_base_fee net_ok = Inr 80000000000
   \<and> max_priority_fee net_ok = Inr 5000000000
   \<and> gas_policy_guard main_globals net_ok = Inl TypeError
   \<and> execute_tail main_globals net_ok example_best initial_state = (Inl TypeError, initial_state)
   \<and> gas_policy_guard capped_globals net_ok = Inr (Accepted 82000000000 2000000000)
   \<and> execute_tail capped_globals net_ok example_best initial_state =
       (Inr True,
        \<lparr>last_nonce = Some 5,
         trace = [TxBuilt (example_tx 5), TxSigned (example_tx_gas 5),
                  TxBroadcast (example_tx_gas 5) 1, AlertTxSent 1, AlertSuccess 1]\<rparr>)
   \<and> maxFeePerGas (example_tx 5) = 82000000000
   \<and> maxPriorityFeePerGas (example_tx 5) = 2000000000"
proof -
  have b: "best_profitable example_best"
    by (simp add: example_best_def locals_of_def example_results_def)
  have u: "gas_policy_guard main_globals net_ok = Inl TypeError"
    by (simp add: gas_policy_guard_unset net_ok_def)
  have c: "gas_policy_guard capped_globals net_ok = Inr (Accepted 82000000000 2000000000)"
    by (simp add: gas_policy_guard_def bind_exn_def capped_globals_def main_globals_def
        module_globals_def net_ok_def Let_def)
  have 1: "acquire_nonce net_ok initial_state = (Inr 5, \<lparr>last_nonce = Some 5, trace = []\<rparr>)"
    by (simp add: acquire_nonce_def initial_state_def net_ok_def)
  from b u c submit_example [OF 1] show ?thesis
    by (simp add: execute_tail_def emit_def main_globals_def module_globals_def net_ok_def
        example_tx_def)
qed

section \<open>Gas estimation failing during the scan\<close>

lemma estimate_gas_cost_fallback:
  assumes "valid_wei amount_in" and "scan_estimate_gas net = Inl e"
  shows "estimate_gas_cost net amount_in =
           Inr \<lparr>gas_estimate = None, gas_price = None, gas_cost_wei = None,
                gas_cost_weth = FALLBACK_GAS_COST\<rparr>"
  using assms from_wei_valid [OF assms(1), of ETHER]
  by (auto simp: estimate_gas_cost_def gas_fallback_def bind_exn_def)

lemma simulate_body_unbound:
  assumes "scan_estimate_gas net = Inl e"
  shows "\<exists>e'. simulate_body net p amount_in = Inl e'"
proof (cases "valid_wei amount_in")
  case True
  from estimate_gas_cost_fallback [OF True assms] show ?thesis
    by (auto simp: simulate_body_def bind_exn_def split: sum.splits prod.splits)
next
  case False
  then have "from_wei amount_in ETHER = Inl ValueError" by (rule from_wei_invalid)
  with assms show ?thesis
    by (auto simp: simulate_body_def bind_exn_def estimate_gas_cost_def gas_fallback_def
        split: sum.splits prod.splits)
qed

lemma gas_failure_aborts_probe:
  assumes "valid_wei amount_in" and "scan_estimate_gas net = Inl e"
  shows "simulate_arbitrage net p amount_in =
           Inr (failure_tuple, [AlertSimulationFailed (revert_reason net)])"
  using simulate_body_unbound [OF assms(2), of p amount_in]
    simulate_arbitrage_failure [OF assms(1), of net p]
  by auto

lemma net_profit_fallback_example:
  "net_profit 0 example_fees_weth FALLBACK_GAS_COST =
     Inr (- (7476695960834167 / 576460752303423488))"
proof -
  have "float_of_int 0 = Inr 0" by (simp add: float_of_int_def f64_round_def)
  moreover have "f64_round (example_fees_weth + FALLBACK_GAS_COST) =
      Inr (7476695960834167 / 576460752303423488)"
    using f64_round_cert [of "example_fees_weth + FALLBACK_GAS_COST" "- 7" 7476695960834167]
    by (simp add: pow2_def example_fees_weth_def FALLBACK_GAS_COST_def)
  then have "float_sub (- example_fees_weth) FALLBACK_GAS_COST =
      Inr (- (7476695960834167 / 576460752303423488))"
    using f64_round_neg [of "example_fees_weth + FALLBACK_GAS_COST"] by (simp add: float_sub_def)
  ultimately show ?thesis
    using float_sub_zero [OF fees_weth_is_float]
    by (simp add: net_profit_def from_wei_def bind_exn_def)
qed

text \<open>
  Claim C9 at a failing input. The gas estimation of the probe fails; the inner handler
  puts the fallback cost \<^verbatim>\<open>0.01\<close> in place and the net profit is computed with it, but
  \<^verbatim>\<open>print("gas_estimate: ", gas_estimate)\<close> then reads a local that was never bound,
  and the probe ends in the outer handler with the failure tuple and the failure alert:
  the fallback does not keep the probe from being aborted.
\<close>

theorem gas_failure_fallback_lost:
  "scan_estimate_gas probe_no_gas = Inl (RpcError ''execution reverted'')
   \<and> estimate_gas_cost probe_no_gas 1000000000000000000 =
       Inr \<lparr>gas_estimate = None, gas_price = None, gas_cost_wei = None,
            gas_cost_weth = FALLBACK_GAS_COST\<rparr>
   \<and> net_profit 0 example_fees_weth FALLBACK_GAS_COST =
       Inr (- (7476695960834167 / 576460752303423488))
   \<and> simulate_body probe_no_gas pair_usdt 1000000000000000000 = Inl UnboundLocalError
   \<and> simulate_arbitrage probe_no_gas pair_usdt 1000000000000000000 =
       Inr ((False, 0, PInt 0, PInt 0), [AlertSimulationFailed ''Could not decode revert reason''])"
proof -
  have v: "valid_wei 1000000000000000000" by (simp add: valid_wei_def MAX_WEI_def)
  have e: "scan_estimate_gas probe_no_gas = Inl (RpcError ''execution reverted'')"
    by (simp add: probe_no_gas_def)
  note g = estimate_gas_cost_fallback [OF v e]
  from from_wei_valid [OF v, of ETHER] obtain w where w: "from_wei 1000000000000000000 ETHER = Inr w" ..
  have b: "simulate_body probe_no_gas pair_usdt 1000000000000000000 = Inl UnboundLocalError"
    using estimate_fees_example g net_profit_fallback_example w
    by (simp add: simulate_body_def bind_exn_def probe_no_gas_def probe_ok_def py_last_def)
  from gas_failure_aborts_probe [OF v e, of pair_usdt] e g net_profit_fallback_example b
  show ?thesis by (simp add: failure_tuple_def probe_no_gas_def probe_ok_def)
qed

section \<open>The fee estimate\<close>

text \<open>
  Claim C2 at a failing input: 2000 USDT out of the first leg and 0.99 WETH out of the
  second. The fee of the first leg is \<open>6000000\<close> units of USDT (6 USDT, about 0.003 WETH
  at the quoted price), and it is added as \<open>6000000\<close> wei to the \<open>2970000000000000\<close> wei
  of the second leg: no conversion into WETH happens. With a gross profit of 0.002 WETH
  the net profit is not computed at all: the subtraction raises \<^verbatim>\<open>TypeError\<close>.
\<close>

theorem fee_estimate_mixes_units:
  "estimate_fees 2000000000 990000000000000000 =
     Inr (2970000006000000, 6848353751199729 / 2305843009213693952)
   \<and> int_mul_float 2000000000 FEE_RATE = Inr 6000000
   \<and> int_mul_float 990000000000000000 FEE_RATE = Inr 2970000000000000
   \<and> net_profit 2000000000000000 (6848353751199729 / 2305843009213693952)
       (3458764513820541 / 576460752303423488) = Inl TypeError"
proof -
  have "valid_wei 2000000000000000" by (simp add: valid_wei_def MAX_WEI_def)
  then show ?thesis
    using estimate_fees_example fee_token_example fee_weth_example
      net_profit_nonzero [of 2000000000000000]
    by (simp add: example_fees_weth_def)
qed

section \<open>The polling loop\<close>

lemma main_loop_outcome:
  "fst (main_loop gl polls last_block st) =
     (case List.find (\<lambda>p. isl (block_number p)) polls of
        None \<Rightarrow> Running
      | Some p \<Rightarrow> Died (projl (block_number p)))"
proof (induction polls arbitrary: last_block st)
  case Nil
  then show ?case by simp
next
  case (Cons p polls)
  show ?case
  proof (cases "block_number p")
    case (Inl e)
    then show ?thesis by simp
  next
    case (Inr n)
    with Cons.IH show ?thesis
      by (auto split: prod.splits)
  qed
qed

lemma main_loop_turn:
  "(block_number p = Inr current_block \<and> last_block < current_block
      \<and> execute_arbitrage gl (cycle p) st = (Inl e, st') \<longrightarrow>
        main_loop gl (p # ps) last_block st =
          main_loop gl ps current_block (emit [AlertBlockError e, Sleep INITIAL_BACKOFF] st'))
   \<and> (block_number p = Inr current_block \<and> last_block < current_block
      \<and> execute_arbitrage gl (cycle p) st = (Inr success, st') \<longrightarrow>
        main_loop gl (p # ps) last_block st = main_loop gl ps current_block st')
   \<and> (block_number p = Inr current_block \<and> \<not> last_block < current_block \<longrightarrow>
        main_loop gl (p # ps) last_block st =
          main_loop gl ps last_block (emit [Sleep POLL_INTERVAL] st))
   \<and> (block_number p = Inl e \<longrightarrow> main_loop gl (p # ps) last_block st = (Died e, st))"
  by (simp add: handle_new_block_def emit_def INITIAL_BACKOFF_def)

text \<open>
  Claim C10, as amended. Whatever the module globals and whatever the cycles do, the
  polling loop is still running after any number of turns unless a read of the chain
  height raised, and then that exception has left \<^verbatim>\<open>main\<close>: an exception of an
  execution cycle is caught by \<^verbatim>\<open>handle_new_block\<close>, reported, and answered with the
  back-off of 10 seconds, while a failing height read ends the process in every turn,
  the first read by making \<^verbatim>\<open>main\<close> return and a later one by propagating. Before the
  loop, a missing environment variable or an ABI file that does not load exits with
  status 1, and a failure to connect or to bind the contract leaves \<^verbatim>\<open>main\<close> as well.
  Turn by turn: after a cycle that raised, the loop goes on with the rest of its turns
  from the state of the cycle plus the error report and a sleep of 10 seconds; after a
  cycle that returned, it goes on at once; without a new block it sleeps the polling
  interval and goes on; on a failed height read it stops with that exception.
\<close>

theorem polling_outcome:
  "fst (main_loop gl polls last_block st) =
     (case List.find (\<lambda>p. isl (block_number p)) polls of
        None \<Rightarrow> Running
      | Some p \<Rightarrow> Died (projl (block_number p)))
   \<and> (execute_arbitrage gl net st = (Inl e', st') \<longrightarrow>
        handle_new_block gl net st = ((False, INITIAL_BACKOFF), emit [AlertBlockError e'] st'))
   \<and> fst (program env su polls) =
       (if \<not> config_complete env \<or> isl (load_abi env) then Exited 1
        else if isl (connect su) then Died (projl (connect su))
        else if isl (bind_contract su) then Died (projl (bind_contract su))
        else if isl (first_block_number su) then Returned
        else (case List.find (\<lambda>p. isl (block_number p)) polls of
                None \<Rightarrow> Running
              | Some p \<Rightarrow> Died (projl (block_number p))))
   \<and> (block_number p = Inr current_block \<and> last_block < current_block
      \<and> execute_arbitrage gl (cycle p) st = (Inl e', st') \<longrightarrow>
        main_loop gl (p # ps) last_block st =
          main_loop gl ps current_block (emit [AlertBlockError e', Sleep 10] st'))
   \<and> (block_number p = Inr current_block \<and> last_block < current_block
      \<and> execute_arbitrage gl (cycle p) st = (Inr success, st') \<longrightarrow>
        main_loop gl (p # ps) last_block st = main_loop gl ps current_block st')
   \<and> (block_number p = Inr current_block \<and> \<not> last_block < current_block \<longrightarrow>
        main_loop gl (p # ps) last_block st = main_loop gl ps last_block (emit [Sleep 1] st))
   \<and> (block_number p = Inl e' \<longrightarrow> main_loop gl (p # ps) last_block st = (Died e', st))"
proof -
  have "fst (main su polls) =
       (if isl (connect su) then Died (projl (connect su))
        else if isl (bind_contract su) then Died (projl (bind_contract su))
        else if isl (first_block_number su) then Returned
        else (case List.find (\<lambda>p. isl (block_number p)) polls of
                None \<Rightarrow> Running
              | Some p \<Rightarrow> Died (projl (block_number p))))"
    using main_loop_outcome [of main_globals polls _ "emit [AlertStarted] initial_state"]
    by (simp add: main_def split: sum.splits)
  then have "fst (program env su polls) =
       (if \<not> config_complete env \<or> isl (load_abi env) then Exited 1
        else if isl (connect su) then Died (projl (connect su))
        else if isl (bind_contract su) then Died (projl (bind_contract su))
        else if isl (first_block_number su) then Returned
        else (case List.find (\<lambda>p. isl (block_number p)) polls of
                None \<Rightarrow> Running
              | Some p \<Rightarrow> Died (projl (block_number p))))"
    by (simp add: program_def split: sum.splits)
  then show ?thesis
    using main_loop_outcome [of gl polls last_block st]
      main_loop_turn [of p current_block last_block gl st e' st' ps success]
    by (simp add: handle_new_block_def INITIAL_BACKOFF_def POLL_INTERVAL_def)
qed

lemma simulate_body_flagged:
  "simulate_body probe_flagged p 1000000000000000000 =
     Inr (True, 0, PFloat (- (5170852951620473 / 576460752303423488)), PFloat example_gas_weth)"
proof -
  have "valid_wei 1000000000000000000" by (simp add: valid_wei_def MAX_WEI_def)
  from simulate_body_example [OF this, of probe_flagged True p] show ?thesis
    by (simp add: probe_flagged_def probe_ok_def)
qed

lemma execute_arbitrage_flagged:
  "execute_arbitrage unset_globals net_flagged initial_state =
     (Inl TypeError,
      \<lparr>last_nonce = None,
       trace = [Sleep 1,
                AlertProbe ''WETH/USDT'' 1000000000000000000
                  (PFloat (- (5170852951620473 / 576460752303423488)))]\<rparr>)"
proof -
  have "from_wei 1000000000000000000 ETHER = Inr (PDecimal 1)"
    by (simp add: from_wei_def MAX_WEI_def ETHER_def)
  then show ?thesis
    using simulate_body_flagged [of pair_usdt]
    by (simp add: execute_arbitrage_def probe_step_def simulate_arbitrage_def select_step_def
        unset_globals_def module_globals_def net_flagged_def net_ok_def emit_def initial_state_def
        pair_usdt_def)
qed

lemma main_loop_flagged:
  "main_loop unset_globals [poll_flagged 101, poll_flagged 101, poll_flagged 102] 100 initial_state =
     (Running,
      \<lparr>last_nonce = None,
       trace = [Sleep 1,
                AlertProbe ''WETH/USDT'' 1000000000000000000
                  (PFloat (- (5170852951620473 / 576460752303423488))),
                AlertBlockError TypeError, Sleep 10,
                Sleep 1,
                Sleep 1,
                AlertProbe ''WETH/USDT'' 1000000000000000000
                  (PFloat (- (5170852951620473 / 576460752303423488))),
                AlertBlockError TypeError, Sleep 10]\<rparr>)"
proof -
  have f: "from_wei 1000000000000000000 ETHER = Inr (PDecimal 1)"
    by (simp add: from_wei_def MAX_WEI_def ETHER_def)
  have e: "execute_arbitrage unset_globals net_flagged st =
      (Inl TypeError,
       emit [Sleep 1, AlertProbe ''WETH/USDT'' 1000000000000000000
                  (PFloat (- (5170852951620473 / 576460752303423488)))] st)" for st
    using simulate_body_flagged [of pair_usdt] f
    by (simp add: execute_arbitrage_def probe_step_def simulate_arbitrage_def select_step_def
        unset_globals_def module_globals_def net_flagged_def net_ok_def emit_def pair_usdt_def)
  show ?thesis
    by (simp add: e handle_new_block_def poll_flagged_def emit_def initial_state_def
        INITIAL_BACKOFF_def POLL_INTERVAL_def)
qed

theorem polling_outcome_witness:
  "fst (main_loop unset_globals [poll_flagged 101, poll_flagged 101, poll_flagged 102] 100 initial_state)
     = Running
   \<and> fst (program example_environ example_startup [poll_ok 101, poll_ok 102]) = Running
   \<and> fst (program example_environ
            (example_startup\<lparr>first_block_number := Inl (RpcError ''connection closed'')\<rparr>)
            [poll_ok 101]) = Returned
   \<and> fst (program (example_environ\<lparr>PRIVATE_KEY := None\<rparr>) example_startup [poll_ok 101]) = Exited 1
   \<and> execute_arbitrage unset_globals net_flagged initial_state =
       (Inl TypeError,
        \<lparr>last_nonce = None,
         trace = [Sleep 1,
                  AlertProbe ''WETH/USDT'' 1000000000000000000
                    (PFloat (- (5170852951620473 / 576460752303423488)))]\<rparr>)
   \<and> handle_new_block unset_globals net_flagged initial_state =
       ((False, 10),
        \<lparr>last_nonce = None,
         trace = [Sleep 1,
                  AlertProbe ''WETH/USDT'' 1000000000000000000
                    (PFloat (- (5170852951620473 / 576460752303423488))),
                  AlertBlockError TypeError]\<rparr>)
   \<and> main_loop unset_globals [poll_flagged 101] 100 initial_state =
       (Running,
        \<lparr>last_nonce = None,
         trace = [Sleep 1,
                  AlertProbe ''WETH/USDT'' 1000000000000000000
                    (PFloat (- (5170852951620473 / 576460752303423488))),
                  AlertBlockError TypeError, Sleep 10]\<rparr>)
   \<and> main_loop unset_globals [poll_flagged 100] 100 initial_state =
       (Running, \<lparr>last_nonce = None, trace = [Sleep 1]\<rparr>)
   \<and> main_loop unset_globals [poll_failed, poll_flagged 101] 100 initial_state =
       (Died (RpcError ''connection closed''), initial_state)
   \<and> (\<exists>st'. execute_arbitrage main_globals net_ok initial_state = (Inr False, st')
            \<and> main_loop main_globals [poll_ok 101] 100 initial_state = (Running, st'))"
proof -
  let ?st' = "\<lparr>last_nonce = None,
         trace = [Sleep 1,
                  AlertProbe ''WETH/USDT'' 1000000000000000000
                    (PFloat (- (5170852951620473 / 576460752303423488)))]\<rparr>"
  have c: "config_complete example_environ" "\<not> config_complete (example_environ\<lparr>PRIVATE_KEY := None\<rparr>)"
    "load_abi example_environ = Inr ()"
    by (simp_all add: config_complete_def truthy_def example_environ_def)
  note a = polling_outcome
    [where gl = unset_globals and polls = "[poll_flagged 101, poll_flagged 101, poll_flagged 102]"
       and last_block = 100 and st = initial_state and net = net_flagged and e' = TypeError
       and st' = ?st' and p = "poll_flagged 101" and current_block = 101 and ps = "[]"]
  from a have 1: "fst (main_loop unset_globals [poll_flagged 101, poll_flagged 101, poll_flagged 102]
      100 initial_state) = Running"
    by (simp add: poll_flagged_def)
  from a execute_arbitrage_flagged
  have 2: "handle_new_block unset_globals net_flagged initial_state =
      ((False, 10), emit [AlertBlockError TypeError] ?st')"
    by (simp add: INITIAL_BACKOFF_def)
  from a execute_arbitrage_flagged
  have 6: "main_loop unset_globals [poll_flagged 101] 100 initial_state =
      (Running, emit [AlertBlockError TypeError, Sleep 10] ?st')"
    by (simp add: poll_flagged_def emit_def handle_new_block_def INITIAL_BACKOFF_def)
  from polling_outcome
    [where gl = unset_globals and last_block = 100 and st = initial_state
       and p = "poll_flagged 100" and current_block = 100 and ps = "[]"]
  have 7: "main_loop unset_globals [poll_flagged 100] 100 initial_state =
      (Running, emit [Sleep 1] initial_state)"
    by (simp add: poll_flagged_def emit_def POLL_INTERVAL_def)
  from polling_outcome
    [where gl = unset_globals and last_block = 100 and st = initial_state
       and p = poll_failed and e' = "RpcError ''connection closed''" and ps = "[poll_flagged 101]"]
  have 8: "main_loop unset_globals [poll_failed, poll_flagged 101] 100 initial_state =
       (Died (RpcError ''connection closed''), initial_state)"
    by (simp add: poll_failed_def)
  from execute_arbitrage_main_globals [of net_ok initial_state] obtain st1 where
    s: "execute_arbitrage main_globals net_ok initial_state = (Inr False, st1)" by blast
  from polling_outcome
    [where gl = main_globals and last_block = 100 and st = initial_state
       and p = "poll_ok 101" and current_block = 101 and ps = "[]" and success = False
       and st' = st1] s
  have "main_loop main_globals [poll_ok 101] 100 initial_state = (Running, st1)"
    by (simp add: poll_ok_def)
  with s have 9: "\<exists>st'. execute_arbitrage main_globals net_ok initial_state = (Inr False, st')
            \<and> main_loop main_globals [poll_ok 101] 100 initial_state = (Running, st')"
    by blast
  from polling_outcome
    [where env = example_environ and su = example_startup and polls = "[poll_ok 101, poll_ok 102]"] c
  have 3: "fst (program example_environ example_startup [poll_ok 101, poll_ok 102]) = Running"
    by (simp add: example_startup_def poll_ok_def)
  from polling_outcome
    [where env = example_environ
       and su = "example_startup\<lparr>first_block_number := Inl (RpcError ''connection closed'')\<rparr>"
       and polls = "[poll_ok 101]"] c
  have 4: "fst (program example_environ
            (example_startup\<lparr>first_block_number := Inl (RpcError ''connection closed'')\<rparr>)
            [poll_ok 101]) = Returned"
    by (simp add: example_startup_def)
  from polling_outcome
    [where env = "example_environ\<lparr>PRIVATE_KEY := None\<rparr>" and su = example_startup
       and polls = "[poll_ok 101]"] c
  have 5: "fst (program (example_environ\<lparr>PRIVATE_KEY := None\<rparr>) example_startup [poll_ok 101]) = Exited 1"
    by simp
  from 1 2 3 4 5 6 7 8 9 execute_arbitrage_flagged show ?thesis
    by (simp add: emit_def initial_state_def)
qed

text \<open>
  Claim C10 as stated fails on a later read of the chain height: the first read
  answers 100, the first turn of the loop reads 101 and runs a cycle, the second turn's
  read raises, and the exception leaves \<^verbatim>\<open>main\<close>; the third turn never happens.
\<close>

theorem later_height_read_counterexample:
  "config_complete example_environ
   \<and> load_abi example_environ = Inr ()
   \<and> first_block_number example_startup = Inr 100
   \<and> block_number (poll_ok 101) = Inr 101
   \<and> block_number poll_failed = Inl (RpcError ''connection closed'')
   \<and> fst (program example_environ example_startup [poll_ok 101, poll_failed, poll_ok 102]) =
       Died (RpcError ''connection closed'')
   \<and> fst (program example_environ example_startup [poll_ok 101, poll_failed, poll_ok 102]) \<noteq> Running"
  using main_loop_outcome
    [of main_globals "[poll_ok 101, poll_failed, poll_ok 102]" 100 "emit [AlertStarted] initial_state"]
  by (simp add: program_def main_def example_startup_def example_environ_def poll_ok_def
      poll_failed_def config_complete_def truthy_def)

end
